theory Spec2Isabelle
  imports Complex_Main "HOL-Library.Sublist"
begin

section \<open>Numbers and vectors\<close>

text \<open>
  The program computes with JavaScript numbers. They are idealised here as real numbers:
  rounding, signed zeros, infinities and NaN of IEEE doubles are not represented. A
  \<open>Vector3Tuple\<close> is a triple of numbers.
\<close>

type_synonym vec3 = "real \<times> real \<times> real"

definition hypot :: "real \<Rightarrow> real \<Rightarrow> real" where
  \<comment> \<open>\<open>Math.hypot(a, b)\<close>\<close>
  "hypot a b = sqrt (a\<^sup>2 + b\<^sup>2)"

definition atan2 :: "real \<Rightarrow> real \<Rightarrow> real" where
  \<comment> \<open>\<open>Math.atan2(y, x)\<close>: the angle of the point \<open>(x, y)\<close>, in \<open>(-pi, pi]\<close>\<close>
  "atan2 y x =
     (if 0 < x then arctan (y / x)
      else if x < 0 then (if 0 \<le> y then arctan (y / x) + pi else arctan (y / x) - pi)
      else if 0 < y then pi / 2
      else if y < 0 then - (pi / 2)
      else 0)"

section \<open>Movement integrator: \<open>src/hooks/useKeyboardMovement.ts\<close>\<close>

datatype MovementDirection = Forward | Backward | Left | Right

definition MOVEMENT_KEYS :: "(MovementDirection \<times> string list) list" where
  \<comment> \<open>in the order \<open>Object.entries\<close> enumerates the object literal\<close>
  "MOVEMENT_KEYS =
     [(Forward, [''KeyW'', ''ArrowUp'']),
      (Backward, [''KeyS'', ''ArrowDown'']),
      (Left, [''KeyA'', ''ArrowLeft'']),
      (Right, [''KeyD'', ''ArrowRight''])]"

definition RUN_KEYS :: "string list" where
  "RUN_KEYS = [''ShiftLeft'', ''ShiftRight'']"

record Velocity =
  vel_x :: real
  vel_z :: real
  vel_speed :: real

record MovementState =
  position :: vec3
  rotation :: vec3
  isMoving :: bool
  isRunning :: bool
  velocity :: Velocity
  activeKeys :: "string list"

text \<open>
  The mutable references of one hook instance. \<open>keysPressed\<close> is a JavaScript \<open>Set\<close>:
  its members in insertion order.
\<close>

record hook_refs =
  keysPressed :: "string list"
  currentPosition :: vec3
  currentRotation :: vec3

definition some_pressed :: "string list \<Rightarrow> string list \<Rightarrow> bool" where
  \<comment> \<open>\<open>keys.some(key => keysPressed.current.has(key))\<close>\<close>
  "some_pressed keys pressed = list_ex (\<lambda>key. key \<in> set pressed) keys"

definition frameSpeed :: "real \<Rightarrow> bool \<Rightarrow> real \<Rightarrow> real" where
  "frameSpeed speed runPressed deltaTime =
     (let runMultiplier = (if runPressed then 1.8 else 1.0)
      in speed * runMultiplier * (deltaTime * 60))"

text \<open>The local variables the loop over the four directions updates.\<close>

record move_acc =
  moveX :: real
  moveZ :: real
  newRotY :: real
  moving :: bool

definition direction_step ::
  "real \<Rightarrow> bool \<Rightarrow> real \<Rightarrow> string list \<Rightarrow> MovementDirection \<times> string list \<Rightarrow> move_acc \<Rightarrow> move_acc"
where
  \<comment> \<open>one iteration of \<open>for (const [direction, keys] of directions)\<close>\<close>
  "direction_step speed runPressed deltaTime pressed dk acc =
     (let isPressed = some_pressed (snd dk) pressed in
      if isPressed then
        (let fs = frameSpeed speed runPressed deltaTime in
         case fst dk of
           Forward \<Rightarrow> acc\<lparr>moveZ := moveZ acc - fs, newRotY := 0, moving := True\<rparr>
         | Backward \<Rightarrow> acc\<lparr>moveZ := moveZ acc + fs, newRotY := pi, moving := True\<rparr>
         | Left \<Rightarrow> acc\<lparr>moveX := moveX acc - fs, newRotY := pi / 2, moving := True\<rparr>
         | Right \<Rightarrow> acc\<lparr>moveX := moveX acc + fs, newRotY := - (pi / 2), moving := True\<rparr>)
      else acc)"

definition scan_directions :: "real \<Rightarrow> bool \<Rightarrow> real \<Rightarrow> string list \<Rightarrow> real \<Rightarrow> move_acc" where
  "scan_directions speed runPressed deltaTime pressed rotY =
     fold (direction_step speed runPressed deltaTime pressed) MOVEMENT_KEYS
       \<lparr>moveX = 0, moveZ = 0, newRotY = rotY, moving = False\<rparr>"

text \<open>
  What one call of \<open>updateMovement\<close> produces: the returned state, the references after the
  call, the state handed to \<open>onStateChange\<close> (if it is called) and the console lines
  written.
\<close>

record update_result =
  returnState :: MovementState
  refs_after :: hook_refs
  notified :: "MovementState option"
  logged :: "string list"

definition updateMovement ::
  "real \<Rightarrow> bool \<Rightarrow> real \<Rightarrow> hook_refs \<Rightarrow> real option \<Rightarrow> update_result"
where
  \<comment> \<open>\<open>speed\<close> is the hook's option, \<open>hasOnStateChange\<close> tells whether a callback was given,
      \<open>rnd\<close> is the value \<open>Math.random()\<close> returns, \<open>dt\<close> the optional argument\<close>
  "updateMovement speed hasOnStateChange rnd refs dt =
     (let deltaTime = (case dt of None \<Rightarrow> 0.016 | Some d \<Rightarrow> d);
          pressed = keysPressed refs;
          runPressed = some_pressed RUN_KEYS pressed;
          acc = scan_directions speed runPressed deltaTime pressed (fst (snd (currentRotation refs)));
          pos = currentPosition refs;
          newPosition =
            (if moving acc
             then (fst pos + moveX acc, fst (snd pos), snd (snd pos) + moveZ acc)
             else pos);
          len = hypot (moveX acc) (moveZ acc);
          rotY = (if 0.000001 < len then atan2 (- moveX acc) (- moveZ acc) else newRotY acc);
          newRotation = (if moving acc then (0, rotY, 0) else currentRotation refs);
          st = \<lparr>position = newPosition, rotation = newRotation,
                isMoving = moving acc, isRunning = runPressed,
                velocity = \<lparr>vel_x = moveX acc, vel_z = moveZ acc,
                             vel_speed = hypot (moveX acc) (moveZ acc)\<rparr>,
                activeKeys = pressed\<rparr>
      in \<lparr>returnState = st,
          refs_after = refs\<lparr>currentPosition := newPosition, currentRotation := newRotation\<rparr>,
          notified = (if hasOnStateChange \<and> (moving acc \<or> pressed = []) then Some st else None),
          logged = (if pressed \<noteq> [] then [''MOVEMENT ACTIVE''] else [])
                   @ (if moving acc \<and> rnd < 0.1 then [''MOVEMENT COMPLETE''] else [])\<rparr>)"

text \<open>
  Whether some key of a direction's group is in the pressed set: the test \<open>isPressed\<close> of
  the loop, for the group \<open>MOVEMENT_KEYS\<close> gives the direction.
\<close>

definition direction_pressed :: "MovementDirection \<Rightarrow> string list \<Rightarrow> bool" where
  "direction_pressed d pressed =
     (case map_of MOVEMENT_KEYS d of None \<Rightarrow> False | Some keys \<Rightarrow> some_pressed keys pressed)"

section \<open>Model normaliser: \<open>src/utils/loaders/gltfInspector.ts\<close>\<close>

text \<open>
  The bounding box of the model (what \<open>new THREE.Box3().setFromObject(model)\<close> returns) is
  an input of the model, as the geometry is. \<open>getSize\<close> and \<open>getCenter\<close> are the library's:
  both give the zero vector for an empty box.
\<close>

record Box3 =
  box_min :: vec3
  box_max :: vec3

definition isEmpty :: "Box3 \<Rightarrow> bool" where
  "isEmpty b =
     (case (box_min b, box_max b) of ((x0, y0, z0), (x1, y1, z1)) \<Rightarrow> x1 < x0 \<or> y1 < y0 \<or> z1 < z0)"

definition getSize :: "Box3 \<Rightarrow> vec3" where
  "getSize b =
     (case (box_min b, box_max b) of ((x0, y0, z0), (x1, y1, z1)) \<Rightarrow>
        if isEmpty b then (0, 0, 0) else (x1 - x0, y1 - y0, z1 - z0))"

definition getCenter :: "Box3 \<Rightarrow> vec3" where
  "getCenter b =
     (case (box_min b, box_max b) of ((x0, y0, z0), (x1, y1, z1)) \<Rightarrow>
        if isEmpty b then (0, 0, 0) else ((x0 + x1) * 0.5, (y0 + y1) * 0.5, (z0 + z1) * 0.5))"

record NormalizeOptions =
  targetHeight :: "real option"
  centerToGround :: "bool option"

text \<open>
  The two groups the function builds: the pivot, holding the model, and the container,
  holding the pivot. A new group has position \<open>(0, 0, 0)\<close> and scale \<open>(1, 1, 1)\<close>.
\<close>

record 'm Pivot =
  pivot_name :: string
  pivot_position :: vec3
  pivot_child :: 'm

record 'm Container =
  container_name :: string
  container_scale :: vec3
  container_child :: "'m Pivot"

definition createNormalizedContainer :: "'m \<Rightarrow> Box3 \<Rightarrow> NormalizeOptions \<Rightarrow> 'm Container" where
  \<comment> \<open>\<open>bbox\<close> is the bounding box of \<open>model\<close>; a number is truthy when it is not zero\<close>
  "createNormalizedContainer model bbox options =
     (let ctg = (case centerToGround options of None \<Rightarrow> True | Some c \<Rightarrow> c);
          size = getSize bbox;
          center = getCenter bbox;
          pivotPos =
            (if ctg then (- fst center, - fst (snd (box_min bbox)), - snd (snd center))
             else (0, 0, 0));
          scale =
            (case targetHeight options of
               None \<Rightarrow> (1, 1, 1)
             | Some th \<Rightarrow>
                 if th \<noteq> 0 \<and> 0 < fst (snd size)
                 then (let scaleFactor = th / fst (snd size) in (scaleFactor, scaleFactor, scaleFactor))
                 else (1, 1, 1))
      in \<lparr>container_name = ''AvatarContainer'', container_scale = scale,
          container_child =
            \<lparr>pivot_name = ''AvatarPivot'', pivot_position = pivotPos, pivot_child = model\<rparr>\<rparr>)"

section \<open>Avatar system: \<open>ModernAvatarSystem\<close>\<close>

subsection \<open>Clips and root-motion stripping\<close>

record KeyframeTrack =
  track_name :: string
  track_times :: "real list"
  track_values :: "real list"

record AnimationClip =
  clip_name :: string
  clip_duration :: real
  clip_tracks :: "KeyframeTrack list"

definition endsWith :: "string \<Rightarrow> string \<Rightarrow> bool" where
  \<comment> \<open>\<open>s.endsWith(sfx)\<close>\<close>
  "endsWith s sfx = suffix sfx s"

definition isPosition :: "KeyframeTrack \<Rightarrow> bool" where
  "isPosition track = endsWith (track_name track) ''.position''"

definition strip_clip :: "AnimationClip \<Rightarrow> AnimationClip" where
  \<comment> \<open>the function mapped over the clips; the clip constructor stores its three arguments\<close>
  "strip_clip clip =
     (let filteredTracks = filter (\<lambda>track. \<not> isPosition track) (clip_tracks clip)
      in \<lparr>clip_name = clip_name clip, clip_duration = clip_duration clip,
          clip_tracks = filteredTracks\<rparr>)"

definition getRootMotionStrippedClips :: "AnimationClip list option \<Rightarrow> AnimationClip list" where
  \<comment> \<open>the argument is \<open>avatar.animations\<close>, which may be absent\<close>
  "getRootMotionStrippedClips animations =
     (case animations of
        None \<Rightarrow> []
      | Some clips \<Rightarrow> if length clips = 0 then [] else map strip_clip clips)"

text \<open>
  A rotation or scale track: one whose name ends in the property \<open>.quaternion\<close>, \<open>.rotation\<close>
  or \<open>.scale\<close>.
\<close>

definition isRotationOrScale :: "KeyframeTrack \<Rightarrow> bool" where
  "isRotationOrScale track =
     (endsWith (track_name track) ''.quaternion'' \<or> endsWith (track_name track) ''.rotation''
      \<or> endsWith (track_name track) ''.scale'')"

subsection \<open>Instance guard\<close>

text \<open>
  The guard keeps, in a property of the global object named after the avatar, the id of
  the component instance that owns the avatar. \<open>window\<close> maps property names to the ids
  stored; a stored value is truthy when it is a non-empty string.
\<close>

type_synonym window = "string \<rightharpoonup> string"

definition globalKey :: "string \<Rightarrow> string" where
  "globalKey avatarName = ''instance_'' @ avatarName"

definition componentId :: "string \<Rightarrow> string \<Rightarrow> string" where
  \<comment> \<open>\<open>stamp\<close> stands for the time and random suffix chosen when the instance is created\<close>
  "componentId avatarName stamp = ''avatar_'' @ avatarName @ ''_'' @ stamp"

definition truthy :: "string option \<Rightarrow> bool" where
  "truthy v = (case v of None \<Rightarrow> False | Some s \<Rightarrow> s \<noteq> [])"

definition acquire :: "window \<Rightarrow> string \<Rightarrow> string \<Rightarrow> window \<times> bool" where
  \<comment> \<open>the guard at the head of the render function; \<open>False\<close> is its \<open>return null\<close>\<close>
  "acquire w avatarName cid =
     (let key = globalKey avatarName in
      if truthy (w key) \<and> w key \<noteq> Some cid then (w, False)
      else if \<not> truthy (w key) then (w(key \<mapsto> cid), True)
      else (w, True))"

definition release :: "window \<Rightarrow> string \<Rightarrow> string \<Rightarrow> window" where
  \<comment> \<open>the cleanup the mount effect returns\<close>
  "release w avatarName cid =
     (let key = globalKey avatarName in
      if w key = Some cid then w(key := None) else w)"

text \<open>
  What one instance has done to the scene: how often it rendered, whether its container
  was added to its group, and whether it created an animation mixer.
\<close>

record instance_state =
  renderCount :: nat
  containerAdded :: bool
  mixerCreated :: bool

record 'm Avatar =
  avatar_name :: string
  avatar_model :: "'m option"
  avatar_animations :: "AnimationClip list option"

definition setupModel :: "'m Avatar \<Rightarrow> bool \<Rightarrow> instance_state \<Rightarrow> instance_state" where
  \<comment> \<open>the scene effects of \<open>setupModel\<close>; \<open>hasGroup\<close> tells whether \<open>groupRef.current\<close> is set\<close>
  "setupModel avatar hasGroup st =
     (if \<not> hasGroup then st
      else if avatar_model avatar = None then st
      else st\<lparr>containerAdded := True,
              mixerCreated :=
                (case avatar_animations avatar of
                   None \<Rightarrow> mixerCreated st
                 | Some clips \<Rightarrow> if 0 < length clips then True else mixerCreated st)\<rparr>)"

definition render :: "window \<Rightarrow> 'm Avatar \<Rightarrow> string \<Rightarrow> bool \<Rightarrow> instance_state \<Rightarrow> window \<times> instance_state \<times> bool" where
  \<comment> \<open>one render of an instance followed by its setup effect; the third component tells
      whether the render returned the group element rather than \<open>null\<close>\<close>
  "render w avatar cid hasGroup st =
     (let st1 = st\<lparr>renderCount := renderCount st + 1\<rparr>;
          (w', ok) = acquire w (avatar_name avatar) cid
      in if \<not> ok then (w', st1, False)
         else (w', setupModel avatar hasGroup st1, True))"

text \<open>
  Instances come and go: an instance renders (and runs the guard), or an instance that is
  mounted unmounts (and runs its cleanup). An instance is identified by its component
  id. \<open>owners\<close> records which instances passed the guard at a render and have not
  unmounted since.
\<close>

datatype event = Render string string | Unmount string string

record guard_world =
  window_of :: window
  owners :: "(string \<times> string) set"

fun guard_step :: "guard_world \<Rightarrow> event \<Rightarrow> guard_world" where
  "guard_step gw (Render avatarName stamp) =
     (let cid = componentId avatarName stamp;
          (w', ok) = acquire (window_of gw) avatarName cid
      in if ok then \<lparr>window_of = w', owners = insert (avatarName, cid) (owners gw)\<rparr>
         else gw\<lparr>window_of := w'\<rparr>)"
| "guard_step gw (Unmount avatarName stamp) =
     (let cid = componentId avatarName stamp
      in if (avatarName, cid) \<in> owners gw
         then \<lparr>window_of = release (window_of gw) avatarName cid,
               owners = owners gw - {(avatarName, cid)}\<rparr>
         else gw)"

definition run_events :: "event list \<Rightarrow> guard_world" where
  "run_events es = foldl guard_step \<lparr>window_of = Map.empty, owners = {}\<rparr> es"

text \<open>
  The invariant of the guard: every instance recorded as owner is the one the global
  property of its avatar names, and its id is not empty.
\<close>

definition guard_inv :: "guard_world \<Rightarrow> bool" where
  "guard_inv gw = (\<forall>p \<in> owners gw. window_of gw (globalKey (fst p)) = Some (snd p) \<and> snd p \<noteq> [])"

subsection \<open>Animation selection\<close>

text \<open>
  The calls made on the animation mixer and on its actions. An action is named by the
  clip it plays. \<open>SetLoopRepeatInfinity\<close> is \<open>setLoop(THREE.LoopRepeat, Infinity)\<close>.
\<close>

datatype action_call = Reset | FadeIn real | FadeOut real | SetLoopRepeatInfinity | Play

datatype mixer_call = Update real | OnAction string action_call

text \<open>
  The regular expressions tested on clip names: a case-insensitive alternative of literal
  words, or \<open>/$^/\<close>, which only the empty string matches.
\<close>

datatype pattern = Words "string list" | EmptyOnly

definition lower_char :: "char \<Rightarrow> char" where
  "lower_char c =
     (if 65 \<le> (of_char c :: nat) \<and> (of_char c :: nat) \<le> 90 then char_of ((of_char c :: nat) + 32) else c)"

definition regexp_test :: "pattern \<Rightarrow> string \<Rightarrow> bool" where
  "regexp_test p s =
     (case p of
        Words ws \<Rightarrow> list_ex (\<lambda>w. sublist w (map lower_char s)) ws
      | EmptyOnly \<Rightarrow> s = [])"

fun findBy :: "AnimationClip list \<Rightarrow> pattern list \<Rightarrow> string option" where
  "findBy clips [] = None"
| "findBy clips (p # ps) =
     (case find (\<lambda>c. regexp_test p (clip_name c)) clips of
        Some hit \<Rightarrow> Some (clip_name hit)
      | None \<Rightarrow> findBy clips ps)"

definition idleChoice :: "AnimationClip list \<Rightarrow> string option" where
  "idleChoice clips =
     (let idle = findBy clips [Words [''smok''], Words [''idle''], Words [''stand''], Words [''tpose'']]
      in if truthy idle then idle
         else (case clips of [] \<Rightarrow> None | c # _ \<Rightarrow> Some (clip_name c)))"

definition resolve_want :: "AnimationClip list \<Rightarrow> bool \<Rightarrow> bool \<Rightarrow> string option" where
  \<comment> \<open>the clip name the frame callback resolves\<close>
  "resolve_want clips isMoving' isRunning' =
     (if isMoving' then
        (let moving' = findBy clips
               [if isRunning' then Words [''run''] else EmptyOnly,
                Words [''walk''], Words [''move''], Words [''locomotion''], Words [''forward'']]
         in if truthy moving' then moving'
            else (case find (\<lambda>c. \<not> regexp_test (Words [''idle'', ''stand'', ''tpose'']) (clip_name c)) clips of
                    Some nonIdle \<Rightarrow> Some (clip_name nonIdle)
                  | None \<Rightarrow> idleChoice clips))
      else idleChoice clips)"

text \<open>
  The references the animation part of the frame callback reads and writes.
  \<open>playStrippedRef\<close> holds the closure \<open>playStrippedByName\<close>; it is represented by the clip
  list the closure captured.
\<close>

record anim_refs =
  hasMixer :: bool
  strippedClipsRef :: "AnimationClip list option"
  playStrippedRef :: "AnimationClip list option"
  currentClipNameRef :: "string option"

definition playStrippedByName :: "AnimationClip list \<Rightarrow> string \<Rightarrow> (string option \<Rightarrow> string option) \<times> mixer_call list" where
  \<comment> \<open>returns the update of \<open>currentClipNameRef\<close> and the calls made\<close>
  "playStrippedByName strippedClips name =
     (case (case find (\<lambda>c. clip_name c = name) strippedClips of
              Some c \<Rightarrow> Some c
            | None \<Rightarrow> (case strippedClips of [] \<Rightarrow> None | c # _ \<Rightarrow> Some c)) of
        None \<Rightarrow> (\<lambda>cur. cur, [])
      | Some clip \<Rightarrow>
          (\<lambda>cur. Some (clip_name clip),
           [OnAction (clip_name clip) Reset,
            OnAction (clip_name clip) (FadeIn 0.2),
            OnAction (clip_name clip) SetLoopRepeatInfinity,
            OnAction (clip_name clip) Play]))"

definition frameCallback_animation :: "anim_refs \<Rightarrow> bool \<Rightarrow> bool \<Rightarrow> real \<Rightarrow> anim_refs \<times> mixer_call list" where
  \<comment> \<open>the part of the frame callback under \<open>if (mixerRef.current)\<close>\<close>
  "frameCallback_animation refs isMoving' isRunning' delta =
     (if \<not> hasMixer refs then (refs, [])
      else
        (case (strippedClipsRef refs, playStrippedRef refs) of
           (Some clips, Some captured) \<Rightarrow>
             (let w = resolve_want clips isMoving' isRunning' in
              if truthy w \<and> w \<noteq> currentClipNameRef refs then
                (let (setCurrent, calls) = playStrippedByName captured (the w)
                 in (refs\<lparr>currentClipNameRef := setCurrent w\<rparr>, Update delta # calls))
              else (refs, [Update delta]))
         | _ \<Rightarrow> (refs, [Update delta])))"

text \<open>
  The animation part of \<open>setupModel\<close>. When the avatar has animations it creates the mixer,
  stores the stripped clips and the closure, and schedules, 100 ms later, a call of
  \<open>playStrippedByName\<close> on the clip preferred on load. \<open>setupAnimations\<close> is the
  assignment of the references, \<open>onLoadTimer\<close> the scheduled call; \<open>initial_refs\<close> are the
  references of a new instance.
\<close>

definition preferredOnLoad :: "AnimationClip list \<Rightarrow> AnimationClip option" where
  "preferredOnLoad strippedClips =
     (case find (\<lambda>c. regexp_test (Words [''smok'']) (clip_name c)) strippedClips of
        Some c \<Rightarrow> Some c
      | None \<Rightarrow>
     (case find (\<lambda>c. regexp_test (Words [''idle'']) (clip_name c)) strippedClips of
        Some c \<Rightarrow> Some c
      | None \<Rightarrow>
     (case find (\<lambda>c. regexp_test (Words [''standing'']) (clip_name c)) strippedClips of
        Some c \<Rightarrow> Some c
      | None \<Rightarrow> (case strippedClips of [] \<Rightarrow> None | c # _ \<Rightarrow> Some c))))"

definition onLoadTimer :: "AnimationClip list \<Rightarrow> anim_refs \<Rightarrow> anim_refs \<times> mixer_call list" where
  "onLoadTimer strippedClips refs =
     (case preferredOnLoad strippedClips of
        None \<Rightarrow> (refs, [])
      | Some preferred \<Rightarrow>
          (let (setCurrent, calls) = playStrippedByName strippedClips (clip_name preferred)
           in (refs\<lparr>currentClipNameRef := setCurrent (currentClipNameRef refs)\<rparr>, calls)))"

definition setupAnimations :: "AnimationClip list option \<Rightarrow> anim_refs \<Rightarrow> anim_refs" where
  "setupAnimations animations refs =
     (case animations of
        None \<Rightarrow> refs
      | Some clips \<Rightarrow>
          if 0 < length clips
          then (let strippedClips = getRootMotionStrippedClips animations
                in refs\<lparr>hasMixer := True, strippedClipsRef := Some strippedClips,
                        playStrippedRef := Some strippedClips\<rparr>)
          else refs)"

definition initial_refs :: anim_refs where
  "initial_refs = \<lparr>hasMixer = False, strippedClipsRef = None, playStrippedRef = None,
                   currentClipNameRef = None\<rparr>"

text \<open>
  \<open>playAnimation\<close> of \<open>useModernAnimationControls\<close>, the other function of the file that
  starts a clip. \<open>currentAction\<close> is the action it started last, if any.
\<close>

definition playAnimation ::
  "bool \<Rightarrow> AnimationClip list option \<Rightarrow> string option \<Rightarrow> string \<Rightarrow> bool \<times> string option \<times> mixer_call list"
where
  "playAnimation mixerPresent animations currentAction animationName =
     (if \<not> mixerPresent \<or> animations = None then (False, currentAction, [])
      else
        (case find (\<lambda>anim. clip_name anim = animationName) (the animations) of
           None \<Rightarrow> (False, currentAction, [])
         | Some animation \<Rightarrow>
             (True, Some (clip_name animation),
              (case currentAction of None \<Rightarrow> [] | Some cur \<Rightarrow> [OnAction cur (FadeOut 0.2)])
              @ [OnAction (clip_name animation) Reset,
                 OnAction (clip_name animation) (FadeIn 0.2),
                 OnAction (clip_name animation) SetLoopRepeatInfinity,
                 OnAction (clip_name animation) Play])))"

text \<open>The calls made on actions, as opposed to the mixer's own \<open>update\<close>.\<close>

fun is_action_call :: "mixer_call \<Rightarrow> bool" where
  "is_action_call (Update d) = False"
| "is_action_call (OnAction n a) = True"

definition action_calls :: "mixer_call list \<Rightarrow> mixer_call list" where
  "action_calls calls = filter is_action_call calls"

section \<open>Properties of the movement integrator\<close>

lemma scan_directions_unfold:
  "scan_directions speed runPressed deltaTime pressed rotY =
     direction_step speed runPressed deltaTime pressed (Right, [''KeyD'', ''ArrowRight''])
      (direction_step speed runPressed deltaTime pressed (Left, [''KeyA'', ''ArrowLeft''])
        (direction_step speed runPressed deltaTime pressed (Backward, [''KeyS'', ''ArrowDown''])
          (direction_step speed runPressed deltaTime pressed (Forward, [''KeyW'', ''ArrowUp''])
            \<lparr>moveX = 0, moveZ = 0, newRotY = rotY, moving = False\<rparr>)))"
  by (simp add: scan_directions_def MOVEMENT_KEYS_def)

lemma direction_pressed_simps:
  "direction_pressed Forward p = some_pressed [''KeyW'', ''ArrowUp''] p"
  "direction_pressed Backward p = some_pressed [''KeyS'', ''ArrowDown''] p"
  "direction_pressed Left p = some_pressed [''KeyA'', ''ArrowLeft''] p"
  "direction_pressed Right p = some_pressed [''KeyD'', ''ArrowRight''] p"
  by (simp_all add: direction_pressed_def MOVEMENT_KEYS_def)

lemma ex_direction_pressed:
  "(\<exists>d. direction_pressed d p) \<longleftrightarrow>
     direction_pressed Forward p \<or> direction_pressed Backward p \<or>
     direction_pressed Left p \<or> direction_pressed Right p"
proof
  assume "\<exists>d. direction_pressed d p"
  then obtain d where "direction_pressed d p" ..
  then show "direction_pressed Forward p \<or> direction_pressed Backward p \<or>
     direction_pressed Left p \<or> direction_pressed Right p"
    by (cases d) simp_all
qed blast

lemma scan_moveZ:
  "moveZ (scan_directions speed run dt p r) =
     (if direction_pressed Forward p then - frameSpeed speed run dt else 0)
     + (if direction_pressed Backward p then frameSpeed speed run dt else 0)"
  by (simp add: scan_directions_unfold direction_step_def direction_pressed_simps Let_def)

lemma scan_moveX:
  "moveX (scan_directions speed run dt p r) =
     (if direction_pressed Left p then - frameSpeed speed run dt else 0)
     + (if direction_pressed Right p then frameSpeed speed run dt else 0)"
  by (simp add: scan_directions_unfold direction_step_def direction_pressed_simps Let_def)

lemma scan_moving:
  "moving (scan_directions speed run dt p r) \<longleftrightarrow> (\<exists>d. direction_pressed d p)"
  unfolding ex_direction_pressed
  by (simp add: scan_directions_unfold direction_step_def direction_pressed_simps Let_def)

lemma returnState_fields:
  "vel_x (velocity (returnState (updateMovement speed cb rnd refs dt))) =
     moveX (scan_directions speed (some_pressed RUN_KEYS (keysPressed refs))
       (case dt of None \<Rightarrow> 0.016 | Some d \<Rightarrow> d) (keysPressed refs) (fst (snd (currentRotation refs))))"
  "vel_z (velocity (returnState (updateMovement speed cb rnd refs dt))) =
     moveZ (scan_directions speed (some_pressed RUN_KEYS (keysPressed refs))
       (case dt of None \<Rightarrow> 0.016 | Some d \<Rightarrow> d) (keysPressed refs) (fst (snd (currentRotation refs))))"
  "isMoving (returnState (updateMovement speed cb rnd refs dt)) =
     moving (scan_directions speed (some_pressed RUN_KEYS (keysPressed refs))
       (case dt of None \<Rightarrow> 0.016 | Some d \<Rightarrow> d) (keysPressed refs) (fst (snd (currentRotation refs))))"
  "vel_speed (velocity (returnState (updateMovement speed cb rnd refs dt))) =
     hypot (vel_x (velocity (returnState (updateMovement speed cb rnd refs dt))))
           (vel_z (velocity (returnState (updateMovement speed cb rnd refs dt))))"
  "isRunning (returnState (updateMovement speed cb rnd refs dt)) = some_pressed RUN_KEYS (keysPressed refs)"
  by (simp_all add: updateMovement_def Let_def)

lemma returnState_position:
  "position (returnState (updateMovement speed cb rnd refs dt)) =
     (if isMoving (returnState (updateMovement speed cb rnd refs dt))
      then (fst (currentPosition refs) + vel_x (velocity (returnState (updateMovement speed cb rnd refs dt))),
            fst (snd (currentPosition refs)),
            snd (snd (currentPosition refs)) + vel_z (velocity (returnState (updateMovement speed cb rnd refs dt))))
      else currentPosition refs)"
  by (simp add: updateMovement_def Let_def)

lemma hypot_axis: "hypot 0 a = \<bar>a\<bar>"
  by (simp add: hypot_def)

lemma hypot_diagonal: "hypot (- a) (- a) = sqrt 2 * \<bar>a\<bar>"
proof -
  have "(- a)\<^sup>2 + (- a)\<^sup>2 = 2 * a\<^sup>2" by simp
  then show ?thesis
    by (simp add: hypot_def real_sqrt_mult)
qed

lemma speed_forward_only:
  assumes "direction_pressed Forward (keysPressed refs)"
    "\<not> direction_pressed Backward (keysPressed refs)"
    "\<not> direction_pressed Left (keysPressed refs)"
    "\<not> direction_pressed Right (keysPressed refs)"
  shows "vel_speed (velocity (returnState (updateMovement speed cb rnd refs dt))) =
     \<bar>frameSpeed speed (some_pressed RUN_KEYS (keysPressed refs)) (case dt of None \<Rightarrow> 0.016 | Some d \<Rightarrow> d)\<bar>"
  using assms by (simp add: returnState_fields scan_moveX scan_moveZ hypot_axis)

lemma speed_forward_left:
  assumes "direction_pressed Forward (keysPressed refs)"
    "\<not> direction_pressed Backward (keysPressed refs)"
    "direction_pressed Left (keysPressed refs)"
    "\<not> direction_pressed Right (keysPressed refs)"
  shows "vel_speed (velocity (returnState (updateMovement speed cb rnd refs dt))) =
     sqrt 2 * \<bar>frameSpeed speed (some_pressed RUN_KEYS (keysPressed refs)) (case dt of None \<Rightarrow> 0.016 | Some d \<Rightarrow> d)\<bar>"
  using assms by (simp add: returnState_fields scan_moveX scan_moveZ hypot_diagonal)

lemma sqrt2_neq_1: "sqrt 2 \<noteq> (1::real)"
  by simp

lemma keys_WA:
  "direction_pressed Forward [''KeyW'', ''KeyA'']" "direction_pressed Left [''KeyW'', ''KeyA'']"
  "\<not> direction_pressed Backward [''KeyW'', ''KeyA'']" "\<not> direction_pressed Right [''KeyW'', ''KeyA'']"
  "\<not> some_pressed RUN_KEYS [''KeyW'', ''KeyA'']"
  by (simp_all add: direction_pressed_simps some_pressed_def RUN_KEYS_def)

lemma keys_W:
  "direction_pressed Forward [''KeyW'']" "\<not> direction_pressed Left [''KeyW'']"
  "\<not> direction_pressed Backward [''KeyW'']" "\<not> direction_pressed Right [''KeyW'']"
  "\<not> some_pressed RUN_KEYS [''KeyW'']"
  by (simp_all add: direction_pressed_simps some_pressed_def RUN_KEYS_def)

lemma scan_forward_only:
  "scan_directions speed run dt [''KeyW''] r =
     \<lparr>moveX = 0, moveZ = - frameSpeed speed run dt, newRotY = 0, moving = True\<rparr>"
  by (simp add: scan_directions_unfold direction_step_def some_pressed_def)

lemma atan2_zero_pos: "0 < x \<Longrightarrow> atan2 0 x = 0"
  by (simp add: atan2_def)

lemma update_forward_only:
  "0 < speed \<Longrightarrow> 0 < d \<Longrightarrow> 0.000001 < speed * (d * 60) \<Longrightarrow>
   returnState (updateMovement speed cb rnd
      \<lparr>keysPressed = [''KeyW''], currentPosition = (px, py, pz), currentRotation = rot\<rparr> (Some d))
   = \<lparr>position = (px, py, pz - speed * (d * 60)), rotation = (0, 0, 0), isMoving = True, isRunning = False,
       velocity = \<lparr>vel_x = 0, vel_z = - (speed * (d * 60)), vel_speed = speed * (d * 60)\<rparr>,
       activeKeys = [''KeyW'']\<rparr>"
  by (simp add: updateMovement_def Let_def keys_W scan_forward_only hypot_axis atan2_zero_pos frameSpeed_def)

lemma refs_after_eq:
  "refs_after (updateMovement speed cb rnd refs dt) =
      refs\<lparr>currentPosition := position (returnState (updateMovement speed cb rnd refs dt)),
           currentRotation := rotation (returnState (updateMovement speed cb rnd refs dt))\<rparr>"
  by (simp add: updateMovement_def Let_def)

lemma refs_after_forward_only:
  assumes "0 < speed" "0 < d" "0.000001 < speed * (d * 60)"
  shows "refs_after (updateMovement speed cb rnd
      \<lparr>keysPressed = [''KeyW''], currentPosition = (px, py, pz), currentRotation = rot\<rparr> (Some d))
   = \<lparr>keysPressed = [''KeyW''], currentPosition = (px, py, pz - speed * (d * 60)),
       currentRotation = (0, 0, 0)\<rparr>"
  unfolding refs_after_eq update_forward_only [OF assms] by simp

lemma sqrt2_less_2: "sqrt 2 < (2::real)"
  using real_sqrt_less_mono [of 2 4] by simp

lemma sqrt2_scaling:
  fixes s :: real
  shows "sqrt 2 * s = s \<longleftrightarrow> s = 0" and "sqrt 2 * s = s + s \<longleftrightarrow> s = 0"
proof -
  have "sqrt 2 * s = s \<longleftrightarrow> (sqrt 2 - 1) * s = 0" by (simp add: algebra_simps)
  also have "\<dots> \<longleftrightarrow> s = 0" using sqrt2_neq_1 by simp
  finally show "sqrt 2 * s = s \<longleftrightarrow> s = 0" .
  have "sqrt 2 * s = s + s \<longleftrightarrow> (sqrt 2 - 2) * s = 0" by (simp add: algebra_simps)
  also have "\<dots> \<longleftrightarrow> s = 0" using sqrt2_less_2 by simp
  finally show "sqrt 2 * s = s + s \<longleftrightarrow> s = 0" .
qed

lemma frameSpeed_zero:
  "frameSpeed speed rp d = 0 \<longleftrightarrow> speed = 0 \<or> d = 0"
  by (simp add: frameSpeed_def)

lemma some_pressed_set:
  "set p1 = set p2 \<Longrightarrow> some_pressed ks p1 = some_pressed ks p2"
  by (simp add: some_pressed_def list_ex_iff)

lemma direction_step_set:
  "set p1 = set p2 \<Longrightarrow> direction_step speed rp d p1 dk acc = direction_step speed rp d p2 dk acc"
  by (simp add: direction_step_def some_pressed_set [of p1 p2])

lemma scan_directions_set:
  "set p1 = set p2 \<Longrightarrow> scan_directions speed rp d p1 r = scan_directions speed rp d p2 r"
  by (simp add: scan_directions_unfold direction_step_set [of p1 p2])

lemma returnState_set:
  assumes "set (keysPressed r1) = set (keysPressed r2)"
    and "currentPosition r1 = currentPosition r2"
    and "currentRotation r1 = currentRotation r2"
  shows "returnState (updateMovement speed cb1 rnd1 r1 dt) =
         (returnState (updateMovement speed cb2 rnd2 r2 dt))\<lparr>activeKeys := keysPressed r1\<rparr>"
proof -
  have "some_pressed RUN_KEYS (keysPressed r1) = some_pressed RUN_KEYS (keysPressed r2)"
    using assms(1) by (rule some_pressed_set)
  moreover have "scan_directions speed rp d (keysPressed r1) r = scan_directions speed rp d (keysPressed r2) r"
    for rp d r
    using assms(1) by (rule scan_directions_set)
  ultimately show ?thesis
    using assms(2,3) by (simp add: updateMovement_def Let_def)
qed

lemma activeKeys_returnState:
  "activeKeys (returnState (updateMovement speed cb rnd refs dt)) = keysPressed refs"
  by (simp add: updateMovement_def Let_def)

lemma key_order_changes_state:
  "returnState (updateMovement 0.2 False 0.5
      \<lparr>keysPressed = [''KeyW'', ''KeyA''], currentPosition = (0, 0, 0), currentRotation = (0, 0, 0)\<rparr> (Some 0.016))
     \<noteq> returnState (updateMovement 0.2 False 0.5
      \<lparr>keysPressed = [''KeyA'', ''KeyW''], currentPosition = (0, 0, 0), currentRotation = (0, 0, 0)\<rparr> (Some 0.016))"
proof
  assume "returnState (updateMovement 0.2 False 0.5
      \<lparr>keysPressed = [''KeyW'', ''KeyA''], currentPosition = (0, 0, 0), currentRotation = (0, 0, 0)\<rparr> (Some 0.016))
     = returnState (updateMovement 0.2 False 0.5
      \<lparr>keysPressed = [''KeyA'', ''KeyW''], currentPosition = (0, 0, 0), currentRotation = (0, 0, 0)\<rparr> (Some 0.016))"
  then have "activeKeys (returnState (updateMovement 0.2 False 0.5
      \<lparr>keysPressed = [''KeyW'', ''KeyA''], currentPosition = (0, 0, 0), currentRotation = (0, 0, 0)\<rparr> (Some 0.016)))
     = activeKeys (returnState (updateMovement 0.2 False 0.5
      \<lparr>keysPressed = [''KeyA'', ''KeyW''], currentPosition = (0, 0, 0), currentRotation = (0, 0, 0)\<rparr> (Some 0.016)))"
    by (rule arg_cong)
  then show False
    unfolding activeKeys_returnState by simp
qed

subsection \<open>Diagonal input\<close>

text \<open>
  Claim C1, as the code has it. With a forward key and a left key pressed (and no backward or
  right key), each of the two axes receives the full \<open>frameSpeed\<close>, and the returned speed
  is the length of the resultant vector: \<open>sqrt 2\<close> times the speed returned for a forward
  key alone under the same run state, base speed and \<open>deltaTime\<close>. It equals that single-axis
  speed, and it equals the sum of the two axes, exactly when the single-axis speed is zero,
  which is when the base speed or \<open>deltaTime\<close> is zero.
\<close>

theorem diagonal_speed_is_resultant:
  assumes "direction_pressed Forward (keysPressed diag)" "direction_pressed Left (keysPressed diag)"
      "\<not> direction_pressed Backward (keysPressed diag)" "\<not> direction_pressed Right (keysPressed diag)"
    and "direction_pressed Forward (keysPressed single)" "\<not> direction_pressed Left (keysPressed single)"
      "\<not> direction_pressed Backward (keysPressed single)" "\<not> direction_pressed Right (keysPressed single)"
    and "some_pressed RUN_KEYS (keysPressed diag) = some_pressed RUN_KEYS (keysPressed single)"
  shows "vel_speed (velocity (returnState (updateMovement speed cb rnd diag dt))) =
           sqrt 2 * vel_speed (velocity (returnState (updateMovement speed cb' rnd' single dt)))
       \<and> vel_speed (velocity (returnState (updateMovement speed cb rnd diag dt))) =
           hypot (vel_x (velocity (returnState (updateMovement speed cb rnd diag dt))))
                 (vel_z (velocity (returnState (updateMovement speed cb rnd diag dt))))
       \<and> \<bar>vel_x (velocity (returnState (updateMovement speed cb rnd diag dt)))\<bar> =
           vel_speed (velocity (returnState (updateMovement speed cb' rnd' single dt)))
       \<and> \<bar>vel_z (velocity (returnState (updateMovement speed cb rnd diag dt)))\<bar> =
           vel_speed (velocity (returnState (updateMovement speed cb' rnd' single dt)))
       \<and> (vel_speed (velocity (returnState (updateMovement speed cb rnd diag dt))) =
            vel_speed (velocity (returnState (updateMovement speed cb' rnd' single dt)))
          \<longleftrightarrow> vel_speed (velocity (returnState (updateMovement speed cb' rnd' single dt))) = 0)
       \<and> (vel_speed (velocity (returnState (updateMovement speed cb rnd diag dt))) =
            \<bar>vel_x (velocity (returnState (updateMovement speed cb rnd diag dt)))\<bar>
            + \<bar>vel_z (velocity (returnState (updateMovement speed cb rnd diag dt)))\<bar>
          \<longleftrightarrow> vel_speed (velocity (returnState (updateMovement speed cb' rnd' single dt))) = 0)
       \<and> (vel_speed (velocity (returnState (updateMovement speed cb' rnd' single dt))) = 0
          \<longleftrightarrow> speed = 0 \<or> (case dt of None \<Rightarrow> 0.016 | Some d \<Rightarrow> d) = 0)"
proof -
  define D where "D = vel_speed (velocity (returnState (updateMovement speed cb rnd diag dt)))"
  define S where "S = vel_speed (velocity (returnState (updateMovement speed cb' rnd' single dt)))"
  define X where "X = vel_x (velocity (returnState (updateMovement speed cb rnd diag dt)))"
  define Z where "Z = vel_z (velocity (returnState (updateMovement speed cb rnd diag dt)))"
  have d: "D = sqrt 2 * S"
    unfolding D_def S_def using assms by (simp add: speed_forward_only speed_forward_left)
  have h: "D = hypot X Z"
    unfolding D_def X_def Z_def by (rule returnState_fields)
  have x: "\<bar>X\<bar> = S"
    unfolding X_def S_def using assms by (simp add: speed_forward_only returnState_fields(1) scan_moveX)
  have z: "\<bar>Z\<bar> = S"
    unfolding Z_def S_def using assms by (simp add: speed_forward_only returnState_fields(2) scan_moveZ)
  have e: "D = S \<longleftrightarrow> S = 0"
    unfolding d by (rule sqrt2_scaling)
  have s: "D = \<bar>X\<bar> + \<bar>Z\<bar> \<longleftrightarrow> S = 0"
    unfolding d x z by (rule sqrt2_scaling)
  have "S = \<bar>frameSpeed speed (some_pressed RUN_KEYS (keysPressed single))
               (case dt of None \<Rightarrow> 0.016 | Some d \<Rightarrow> d)\<bar>"
    unfolding S_def using assms(5-8) by (simp add: speed_forward_only)
  then have n: "S = 0 \<longleftrightarrow> speed = 0 \<or> (case dt of None \<Rightarrow> 0.016 | Some d \<Rightarrow> d) = 0"
    by (simp add: frameSpeed_zero)
  from d h x z e s n show ?thesis
    unfolding D_def S_def X_def Z_def by blast
qed

theorem diagonal_speed_is_resultant_witness:
  "direction_pressed Forward [''KeyW'', ''KeyA''] \<and> direction_pressed Left [''KeyW'', ''KeyA'']
   \<and> \<not> direction_pressed Backward [''KeyW'', ''KeyA''] \<and> \<not> direction_pressed Right [''KeyW'', ''KeyA'']
   \<and> direction_pressed Forward [''KeyW''] \<and> \<not> direction_pressed Left [''KeyW'']
   \<and> \<not> direction_pressed Backward [''KeyW''] \<and> \<not> direction_pressed Right [''KeyW'']
   \<and> some_pressed RUN_KEYS [''KeyW'', ''KeyA''] = some_pressed RUN_KEYS [''KeyW'']
   \<and> vel_speed (velocity (returnState (updateMovement 0.2 False 0.5
        \<lparr>keysPressed = [''KeyW'', ''KeyA''], currentPosition = (0, 0, 0),
         currentRotation = (0, 0, 0)\<rparr> (Some 0.016)))) =
      sqrt 2 * vel_speed (velocity (returnState (updateMovement 0.2 False 0.5
        \<lparr>keysPressed = [''KeyW''], currentPosition = (0, 0, 0),
         currentRotation = (0, 0, 0)\<rparr> (Some 0.016))))
   \<and> vel_speed (velocity (returnState (updateMovement 0.2 False 0.5
        \<lparr>keysPressed = [''KeyW''], currentPosition = (0, 0, 0),
         currentRotation = (0, 0, 0)\<rparr> (Some 0.016)))) \<noteq> 0
   \<and> vel_speed (velocity (returnState (updateMovement 0.2 False 0.5
        \<lparr>keysPressed = [''KeyW'', ''KeyA''], currentPosition = (0, 0, 0),
         currentRotation = (0, 0, 0)\<rparr> (Some 0))))
      = vel_speed (velocity (returnState (updateMovement 0.2 False 0.5
        \<lparr>keysPressed = [''KeyW''], currentPosition = (0, 0, 0),
         currentRotation = (0, 0, 0)\<rparr> (Some 0))))"
  using diagonal_speed_is_resultant [of
      "\<lparr>keysPressed = [''KeyW'', ''KeyA''], currentPosition = (0, 0, 0), currentRotation = (0, 0, 0)\<rparr>"
      "\<lparr>keysPressed = [''KeyW''], currentPosition = (0, 0, 0), currentRotation = (0, 0, 0)\<rparr>"
      "0.2" False "0.5" "Some 0.016" False "0.5"]
    diagonal_speed_is_resultant [of
      "\<lparr>keysPressed = [''KeyW'', ''KeyA''], currentPosition = (0, 0, 0), currentRotation = (0, 0, 0)\<rparr>"
      "\<lparr>keysPressed = [''KeyW''], currentPosition = (0, 0, 0), currentRotation = (0, 0, 0)\<rparr>"
      "0.2" False "0.5" "Some 0" False "0.5"]
  by (simp add: keys_WA keys_W)

theorem diagonal_speed_counterexample:
  "vel_speed (velocity (returnState (updateMovement 0.2 False 0.5
        \<lparr>keysPressed = [''KeyW'', ''KeyA''], currentPosition = (0, 0, 0),
         currentRotation = (0, 0, 0)\<rparr> (Some 0.016)))) \<noteq>
   vel_speed (velocity (returnState (updateMovement 0.2 False 0.5
        \<lparr>keysPressed = [''KeyW''], currentPosition = (0, 0, 0),
         currentRotation = (0, 0, 0)\<rparr> (Some 0.016))))"
proof -
  define D where "D = vel_speed (velocity (returnState (updateMovement 0.2 False 0.5
        \<lparr>keysPressed = [''KeyW'', ''KeyA''], currentPosition = (0, 0, 0),
         currentRotation = (0, 0, 0)\<rparr> (Some 0.016))))"
  define S where "S = vel_speed (velocity (returnState (updateMovement 0.2 False 0.5
        \<lparr>keysPressed = [''KeyW''], currentPosition = (0, 0, 0),
         currentRotation = (0, 0, 0)\<rparr> (Some 0.016))))"
  have d: "D = sqrt 2 * (24 / 125)"
    unfolding D_def by (simp add: speed_forward_left keys_WA frameSpeed_def)
  have s: "S = 24 / 125"
    unfolding S_def by (simp add: speed_forward_only keys_W frameSpeed_def)
  have "D \<noteq> S"
    unfolding d s using sqrt2_neq_1 by simp
  then show ?thesis
    unfolding D_def S_def .
qed

subsection \<open>What the returned state depends on\<close>

text \<open>
  Claim C7, as the code has it. The state \<open>updateMovement\<close> returns is determined by the set
  of pressed keys, the stored position, the stored rotation, \<open>deltaTime\<close> and the base speed:
  two calls that agree on these return states with the same position, rotation, flags and
  velocity, whatever the order in which the keys were pressed, whether or not a callback
  is registered and whatever \<open>Math.random\<close> draws; \<open>activeKeys\<close> lists the pressed keys in the
  order they were pressed. The position and rotation stored after the call are those
  returned, so the two hooks agree again before their next call.
\<close>

theorem update_inputs:
  assumes "set (keysPressed r1) = set (keysPressed r2)"
    and "currentPosition r1 = currentPosition r2"
    and "currentRotation r1 = currentRotation r2"
  shows "returnState (updateMovement speed cb1 rnd1 r1 dt) =
           (returnState (updateMovement speed cb2 rnd2 r2 dt))\<lparr>activeKeys := keysPressed r1\<rparr>
       \<and> activeKeys (returnState (updateMovement speed cb2 rnd2 r2 dt)) = keysPressed r2
       \<and> set (keysPressed (refs_after (updateMovement speed cb1 rnd1 r1 dt))) =
           set (keysPressed (refs_after (updateMovement speed cb2 rnd2 r2 dt)))
       \<and> currentPosition (refs_after (updateMovement speed cb1 rnd1 r1 dt)) =
           currentPosition (refs_after (updateMovement speed cb2 rnd2 r2 dt))
       \<and> currentRotation (refs_after (updateMovement speed cb1 rnd1 r1 dt)) =
           currentRotation (refs_after (updateMovement speed cb2 rnd2 r2 dt))
       \<and> currentPosition (refs_after (updateMovement speed cb1 rnd1 r1 dt)) =
           position (returnState (updateMovement speed cb1 rnd1 r1 dt))
       \<and> currentRotation (refs_after (updateMovement speed cb1 rnd1 r1 dt)) =
           rotation (returnState (updateMovement speed cb1 rnd1 r1 dt))"
proof -
  have eq: "returnState (updateMovement speed cb1 rnd1 r1 dt) =
           (returnState (updateMovement speed cb2 rnd2 r2 dt))\<lparr>activeKeys := keysPressed r1\<rparr>"
    using assms by (rule returnState_set)
  then have p: "position (returnState (updateMovement speed cb1 rnd1 r1 dt)) =
      position (returnState (updateMovement speed cb2 rnd2 r2 dt))"
    and r: "rotation (returnState (updateMovement speed cb1 rnd1 r1 dt)) =
      rotation (returnState (updateMovement speed cb2 rnd2 r2 dt))"
    by simp_all
  have k: "activeKeys (returnState (updateMovement speed cb2 rnd2 r2 dt)) = keysPressed r2"
    by (simp add: updateMovement_def Let_def)
  show ?thesis
    using eq k p r assms(1) by (simp add: refs_after_eq)
qed

theorem update_inputs_witness:
  "set (keysPressed \<lparr>keysPressed = [''KeyD'', ''ShiftLeft''], currentPosition = (1, 0, 2), currentRotation = (0, 1, 0)\<rparr>)
     = set (keysPressed \<lparr>keysPressed = [''ShiftLeft'', ''KeyD''], currentPosition = (1, 0, 2), currentRotation = (0, 1, 0)\<rparr>)
   \<and> returnState (updateMovement 0.2 True 0.05
        \<lparr>keysPressed = [''KeyD'', ''ShiftLeft''], currentPosition = (1, 0, 2), currentRotation = (0, 1, 0)\<rparr> (Some 0.016))
     = (returnState (updateMovement 0.2 False 0.9
        \<lparr>keysPressed = [''ShiftLeft'', ''KeyD''], currentPosition = (1, 0, 2), currentRotation = (0, 1, 0)\<rparr> (Some 0.016)))
        \<lparr>activeKeys := [''KeyD'', ''ShiftLeft'']\<rparr>"
  using update_inputs [of
      "\<lparr>keysPressed = [''KeyD'', ''ShiftLeft''], currentPosition = (1, 0, 2), currentRotation = (0, 1, 0)\<rparr>"
      "\<lparr>keysPressed = [''ShiftLeft'', ''KeyD''], currentPosition = (1, 0, 2), currentRotation = (0, 1, 0)\<rparr>"
      "0.2" True "0.05" "Some 0.016" False "0.9"]
  by (simp add: insert_commute)

theorem update_hidden_position_counterexample:
  "refs_after (updateMovement 0.2 False 0.5
      \<lparr>keysPressed = [''KeyW''], currentPosition = (0, 0, 0), currentRotation = (0, 0, 0)\<rparr> (Some 0.016))
     = \<lparr>keysPressed = [''KeyW''], currentPosition = (0, 0, - 0.192), currentRotation = (0, 0, 0)\<rparr>
   \<and> returnState (updateMovement 0.2 False 0.5
      \<lparr>keysPressed = [''KeyW''], currentPosition = (0, 0, 0), currentRotation = (0, 0, 0)\<rparr> (Some 0.016))
     \<noteq> returnState (updateMovement 0.2 False 0.5
      \<lparr>keysPressed = [''KeyW''], currentPosition = (0, 0, - 0.192), currentRotation = (0, 0, 0)\<rparr> (Some 0.016))
   \<and> set [''KeyW'', ''KeyA''] = set [''KeyA'', ''KeyW'']
   \<and> returnState (updateMovement 0.2 False 0.5
      \<lparr>keysPressed = [''KeyW'', ''KeyA''], currentPosition = (0, 0, 0), currentRotation = (0, 0, 0)\<rparr> (Some 0.016))
     \<noteq> returnState (updateMovement 0.2 False 0.5
      \<lparr>keysPressed = [''KeyA'', ''KeyW''], currentPosition = (0, 0, 0), currentRotation = (0, 0, 0)\<rparr> (Some 0.016))"
proof (intro conjI)
  show "set [''KeyW'', ''KeyA''] = set [''KeyA'', ''KeyW'']"
    by auto
  show "returnState (updateMovement 0.2 False 0.5
      \<lparr>keysPressed = [''KeyW'', ''KeyA''], currentPosition = (0, 0, 0), currentRotation = (0, 0, 0)\<rparr> (Some 0.016))
     \<noteq> returnState (updateMovement 0.2 False 0.5
      \<lparr>keysPressed = [''KeyA'', ''KeyW''], currentPosition = (0, 0, 0), currentRotation = (0, 0, 0)\<rparr> (Some 0.016))"
    by (rule key_order_changes_state)
  define A where "A = returnState (updateMovement 0.2 False 0.5
      \<lparr>keysPressed = [''KeyW''], currentPosition = (0, 0, 0), currentRotation = (0, 0, 0)\<rparr> (Some 0.016))"
  define B where "B = returnState (updateMovement 0.2 False 0.5
      \<lparr>keysPressed = [''KeyW''], currentPosition = (0, 0, - 0.192), currentRotation = (0, 0, 0)\<rparr> (Some 0.016))"
  have a: "position A = (0, 0, - (24 / 125))"
    unfolding A_def using update_forward_only [of "0.2" "0.016" False "0.5" 0 0 0 "(0, 0, 0)"] by simp
  have b: "position B = (0, 0, - (48 / 125))"
    unfolding B_def using update_forward_only [of "0.2" "0.016" False "0.5" 0 0 "- 0.192" "(0, 0, 0)"] by simp
  have "position A \<noteq> position B"
    unfolding a b by simp
  then have "A \<noteq> B" by auto
  then show "returnState (updateMovement 0.2 False 0.5
      \<lparr>keysPressed = [''KeyW''], currentPosition = (0, 0, 0), currentRotation = (0, 0, 0)\<rparr> (Some 0.016))
     \<noteq> returnState (updateMovement 0.2 False 0.5
      \<lparr>keysPressed = [''KeyW''], currentPosition = (0, 0, - 0.192), currentRotation = (0, 0, 0)\<rparr> (Some 0.016))"
    unfolding A_def B_def .
  show "refs_after (updateMovement 0.2 False 0.5
      \<lparr>keysPressed = [''KeyW''], currentPosition = (0, 0, 0), currentRotation = (0, 0, 0)\<rparr> (Some 0.016))
     = \<lparr>keysPressed = [''KeyW''], currentPosition = (0, 0, - 0.192), currentRotation = (0, 0, 0)\<rparr>"
    using refs_after_forward_only [of "0.2" "0.016" False "0.5" 0 0 0 "(0, 0, 0)"] by simp
qed

subsection \<open>Scenario A\<close>

text \<open>
  Claim C8. From position \<open>[0,0,0]\<close> with only \<open>KeyW\<close> held, \<open>deltaTime = 0.016\<close>, base speed
  \<open>0.2\<close> and no run key, \<open>frameSpeed = 0.2 * 1 * (0.016 * 60) = 0.192\<close>, the velocity is
  \<open>(0, -0.192)\<close>, the new position \<open>[0,0,-0.192]\<close> and the yaw \<open>0\<close>, whatever the rotation was
  before.
\<close>

theorem scenario_A:
  "frameSpeed 0.2 False 0.016 = 0.2 * 1 * (0.016 * 60)
   \<and> returnState (updateMovement 0.2 cb rnd
      \<lparr>keysPressed = [''KeyW''], currentPosition = (0, 0, 0), currentRotation = rot\<rparr> (Some 0.016))
   = \<lparr>position = (0, 0, - 0.192), rotation = (0, 0, 0), isMoving = True, isRunning = False,
       velocity = \<lparr>vel_x = 0, vel_z = - 0.192, vel_speed = 0.192\<rparr>, activeKeys = [''KeyW'']\<rparr>"
proof
  show "frameSpeed 0.2 False 0.016 = 0.2 * 1 * (0.016 * 60)"
    by (simp add: frameSpeed_def)
  show "returnState (updateMovement 0.2 cb rnd
      \<lparr>keysPressed = [''KeyW''], currentPosition = (0, 0, 0), currentRotation = rot\<rparr> (Some 0.016))
   = \<lparr>position = (0, 0, - 0.192), rotation = (0, 0, 0), isMoving = True, isRunning = False,
       velocity = \<lparr>vel_x = 0, vel_z = - 0.192, vel_speed = 0.192\<rparr>, activeKeys = [''KeyW'']\<rparr>"
    using update_forward_only [of "0.2" "0.016" cb rnd 0 0 0 rot] by simp
qed

subsection \<open>Opposing keys\<close>

text \<open>
  Claim C9. With a forward key and a backward key both pressed, the z component of the
  velocity is zero and the z coordinate of the position is unchanged; with a left key and
  a right key both pressed, the same holds for x. This is so for every \<open>deltaTime\<close>, base
  speed and run state.
\<close>

theorem opposing_keys_cancel:
  "(direction_pressed Forward (keysPressed refs) \<and> direction_pressed Backward (keysPressed refs) \<longrightarrow>
      vel_z (velocity (returnState (updateMovement speed cb rnd refs dt))) = 0 \<and>
      snd (snd (position (returnState (updateMovement speed cb rnd refs dt)))) = snd (snd (currentPosition refs)))
   \<and> (direction_pressed Left (keysPressed refs) \<and> direction_pressed Right (keysPressed refs) \<longrightarrow>
      vel_x (velocity (returnState (updateMovement speed cb rnd refs dt))) = 0 \<and>
      fst (position (returnState (updateMovement speed cb rnd refs dt))) = fst (currentPosition refs))"
proof -
  let ?st = "returnState (updateMovement speed cb rnd refs dt)"
  have z: "vel_z (velocity ?st) = 0"
    if "direction_pressed Forward (keysPressed refs)" "direction_pressed Backward (keysPressed refs)"
    using that by (simp add: returnState_fields scan_moveZ)
  have x: "vel_x (velocity ?st) = 0"
    if "direction_pressed Left (keysPressed refs)" "direction_pressed Right (keysPressed refs)"
    using that by (simp add: returnState_fields scan_moveX)
  have pz: "snd (snd (position ?st)) = snd (snd (currentPosition refs))" if "vel_z (velocity ?st) = 0"
    using that by (simp add: returnState_position)
  have px: "fst (position ?st) = fst (currentPosition refs)" if "vel_x (velocity ?st) = 0"
    using that by (simp add: returnState_position)
  show ?thesis using z x pz px by blast
qed

theorem opposing_keys_cancel_witness:
  "direction_pressed Forward [''KeyW'', ''ArrowDown'', ''KeyA'', ''KeyD'']
   \<and> direction_pressed Backward [''KeyW'', ''ArrowDown'', ''KeyA'', ''KeyD'']
   \<and> direction_pressed Left [''KeyW'', ''ArrowDown'', ''KeyA'', ''KeyD'']
   \<and> direction_pressed Right [''KeyW'', ''ArrowDown'', ''KeyA'', ''KeyD'']
   \<and> velocity (returnState (updateMovement 0.2 True 0.5
        \<lparr>keysPressed = [''KeyW'', ''ArrowDown'', ''KeyA'', ''KeyD''],
         currentPosition = (1, 2, 3), currentRotation = (0, 0, 0)\<rparr> (Some 0.016)))
       = \<lparr>vel_x = 0, vel_z = 0, vel_speed = 0\<rparr>
   \<and> position (returnState (updateMovement 0.2 True 0.5
        \<lparr>keysPressed = [''KeyW'', ''ArrowDown'', ''KeyA'', ''KeyD''],
         currentPosition = (1, 2, 3), currentRotation = (0, 0, 0)\<rparr> (Some 0.016))) = (1, 2, 3)"
proof -
  let ?refs = "\<lparr>keysPressed = [''KeyW'', ''ArrowDown'', ''KeyA'', ''KeyD''],
         currentPosition = (1, 2, 3), currentRotation = (0, 0, 0)\<rparr>"
  have keys: "direction_pressed Forward (keysPressed ?refs)" "direction_pressed Backward (keysPressed ?refs)"
    "direction_pressed Left (keysPressed ?refs)" "direction_pressed Right (keysPressed ?refs)"
    by (simp_all add: direction_pressed_simps some_pressed_def)
  from opposing_keys_cancel [of ?refs "0.2" True "0.5" "Some 0.016"] keys
  have "vel_z (velocity (returnState (updateMovement 0.2 True 0.5 ?refs (Some 0.016)))) = 0"
     "snd (snd (position (returnState (updateMovement 0.2 True 0.5 ?refs (Some 0.016))))) = 3"
     "vel_x (velocity (returnState (updateMovement 0.2 True 0.5 ?refs (Some 0.016)))) = 0"
     "fst (position (returnState (updateMovement 0.2 True 0.5 ?refs (Some 0.016)))) = 1"
    by simp_all
  moreover have "fst (snd (position (returnState (updateMovement 0.2 True 0.5 ?refs (Some 0.016))))) = 2"
    by (simp add: returnState_position)
  moreover have "vel_speed (velocity (returnState (updateMovement 0.2 True 0.5 ?refs (Some 0.016))))
     = hypot (vel_x (velocity (returnState (updateMovement 0.2 True 0.5 ?refs (Some 0.016)))))
           (vel_z (velocity (returnState (updateMovement 0.2 True 0.5 ?refs (Some 0.016)))))"
    by (rule returnState_fields)
  ultimately show ?thesis using keys
    by (simp add: prod_eq_iff Velocity.equality hypot_def)
qed

subsection \<open>The moving flag\<close>

text \<open>
  Claim C10. \<open>isMoving\<close> is true exactly when some direction has a pressed key. In
  particular, when a forward and a backward key are pressed together (and left and right
  are both pressed or both released), \<open>isMoving\<close> is true although the speed is zero and
  the position does not change.
\<close>

theorem isMoving_follows_keys:
  "(isMoving (returnState (updateMovement speed cb rnd refs dt)) \<longleftrightarrow>
      (\<exists>d. direction_pressed d (keysPressed refs)))
   \<and> (direction_pressed Forward (keysPressed refs) \<and> direction_pressed Backward (keysPressed refs)
        \<and> direction_pressed Left (keysPressed refs) = direction_pressed Right (keysPressed refs)
      \<longrightarrow> isMoving (returnState (updateMovement speed cb rnd refs dt))
          \<and> vel_speed (velocity (returnState (updateMovement speed cb rnd refs dt))) = 0
          \<and> position (returnState (updateMovement speed cb rnd refs dt)) = currentPosition refs)"
proof -
  let ?st = "returnState (updateMovement speed cb rnd refs dt)"
  have m: "isMoving ?st \<longleftrightarrow> (\<exists>d. direction_pressed d (keysPressed refs))"
    by (simp add: returnState_fields scan_moving)
  have c: "isMoving ?st \<and> vel_speed (velocity ?st) = 0 \<and> position ?st = currentPosition refs"
    if F: "direction_pressed Forward (keysPressed refs)"
    and B: "direction_pressed Backward (keysPressed refs)"
    and LR: "direction_pressed Left (keysPressed refs) = direction_pressed Right (keysPressed refs)"
  proof -
    have z: "vel_z (velocity ?st) = 0"
      using F B by (simp add: returnState_fields scan_moveZ)
    have x: "vel_x (velocity ?st) = 0"
      using LR by (simp add: returnState_fields scan_moveX)
    have s: "vel_speed (velocity ?st) = 0"
      by (simp add: returnState_fields(4) x z hypot_def)
    have p: "position ?st = currentPosition refs"
      by (simp add: returnState_position x z)
    from m F have "isMoving ?st" by blast
    with s p show ?thesis by simp
  qed
  from m c show ?thesis by blast
qed

theorem isMoving_follows_keys_witness:
  "direction_pressed Forward [''ArrowUp'', ''KeyS'']
   \<and> direction_pressed Backward [''ArrowUp'', ''KeyS'']
   \<and> direction_pressed Left [''ArrowUp'', ''KeyS''] = direction_pressed Right [''ArrowUp'', ''KeyS'']
   \<and> isMoving (returnState (updateMovement 0.2 False 0.5
        \<lparr>keysPressed = [''ArrowUp'', ''KeyS''], currentPosition = (0, 0, 0),
         currentRotation = (0, 0, 0)\<rparr> None))
   \<and> vel_speed (velocity (returnState (updateMovement 0.2 False 0.5
        \<lparr>keysPressed = [''ArrowUp'', ''KeyS''], currentPosition = (0, 0, 0),
         currentRotation = (0, 0, 0)\<rparr> None))) = 0
   \<and> position (returnState (updateMovement 0.2 False 0.5
        \<lparr>keysPressed = [''ArrowUp'', ''KeyS''], currentPosition = (0, 0, 0),
         currentRotation = (0, 0, 0)\<rparr> None)) = (0, 0, 0)"
proof -
  let ?refs = "\<lparr>keysPressed = [''ArrowUp'', ''KeyS''], currentPosition = (0, 0, 0),
         currentRotation = (0, 0, 0)\<rparr>"
  have keys: "direction_pressed Forward (keysPressed ?refs)" "direction_pressed Backward (keysPressed ?refs)"
    "direction_pressed Left (keysPressed ?refs) = direction_pressed Right (keysPressed ?refs)"
    by (simp_all add: direction_pressed_simps some_pressed_def)
  from isMoving_follows_keys [of "0.2" False "0.5" ?refs None, THEN conjunct2] keys
  show ?thesis by simp
qed

section \<open>Properties of the model normaliser\<close>

lemma createNormalizedContainer_pivot:
  "pivot_position (container_child (createNormalizedContainer model bbox opts)) =
     (if centerToGround opts = Some False then (0, 0, 0)
      else (- fst (getCenter bbox), - fst (snd (box_min bbox)), - snd (snd (getCenter bbox))))"
  by (simp add: createNormalizedContainer_def Let_def split: option.splits)

lemma createNormalizedContainer_scale:
  "container_scale (createNormalizedContainer model bbox opts) =
     (case targetHeight opts of
        None \<Rightarrow> (1, 1, 1)
      | Some th \<Rightarrow>
          if th \<noteq> 0 \<and> 0 < fst (snd (getSize bbox))
          then (th / fst (snd (getSize bbox)), th / fst (snd (getSize bbox)), th / fst (snd (getSize bbox)))
          else (1, 1, 1))"
  by (simp add: createNormalizedContainer_def Let_def split: option.splits)

lemma box_example:
  "getSize \<lparr>box_min = (-1, 2, -3), box_max = (3, 11, 1)\<rparr> = (4, 9, 4)"
  "getCenter \<lparr>box_min = (-1, 2, -3), box_max = (3, 11, 1)\<rparr> = (1, 13 / 2, -1)"
  by (simp_all add: getSize_def getCenter_def isEmpty_def)

text \<open>
  Claim C3, as the code has it. When \<open>centerToGround\<close> is true or absent, the pivot is placed
  at \<open>(-center.x, -bbox.min.y, -center.z)\<close>; when it is false the pivot stays at the origin.
  When \<open>targetHeight\<close> is given and not zero and the height of the bounding box is positive,
  the container's scale is \<open>targetHeight / height\<close> on all three axes (height \<open>9\<close> and target
  \<open>1.8\<close> give \<open>0.2\<close>); when \<open>targetHeight\<close> is absent or zero, or the height is not positive,
  the scale stays \<open>1\<close>. The pivot offset does not depend on \<open>targetHeight\<close>, and the model
  is the pivot's child.
\<close>

theorem normalize_pivot_and_scale:
  "(centerToGround opts \<noteq> Some False \<longrightarrow>
      pivot_position (container_child (createNormalizedContainer model bbox opts)) =
        (- fst (getCenter bbox), - fst (snd (box_min bbox)), - snd (snd (getCenter bbox))))
   \<and> (centerToGround opts = Some False \<longrightarrow>
      pivot_position (container_child (createNormalizedContainer model bbox opts)) = (0, 0, 0))
   \<and> (\<forall>th. targetHeight opts = Some th \<and> th \<noteq> 0 \<and> 0 < fst (snd (getSize bbox)) \<longrightarrow>
      container_scale (createNormalizedContainer model bbox opts) =
        (th / fst (snd (getSize bbox)), th / fst (snd (getSize bbox)), th / fst (snd (getSize bbox))))
   \<and> (targetHeight opts = Some 1.8 \<and> fst (snd (getSize bbox)) = 9 \<longrightarrow>
      container_scale (createNormalizedContainer model bbox opts) = (0.2, 0.2, 0.2))
   \<and> (targetHeight opts = None \<or> targetHeight opts = Some 0 \<or> fst (snd (getSize bbox)) \<le> 0 \<longrightarrow>
      container_scale (createNormalizedContainer model bbox opts) = (1, 1, 1))
   \<and> pivot_position (container_child (createNormalizedContainer model bbox (opts\<lparr>targetHeight := th'\<rparr>))) =
      pivot_position (container_child (createNormalizedContainer model bbox opts))
   \<and> pivot_child (container_child (createNormalizedContainer model bbox opts)) = model"
proof (intro conjI allI impI)
  show "pivot_child (container_child (createNormalizedContainer model bbox opts)) = model"
    by (simp add: createNormalizedContainer_def Let_def)
  show "container_scale (createNormalizedContainer model bbox opts) = (0.2, 0.2, 0.2)"
    if "targetHeight opts = Some 1.8 \<and> fst (snd (getSize bbox)) = 9"
    using that by (simp add: createNormalizedContainer_scale)
  show "container_scale (createNormalizedContainer model bbox opts) = (1, 1, 1)"
    if "targetHeight opts = None \<or> targetHeight opts = Some 0 \<or> fst (snd (getSize bbox)) \<le> 0"
    using that by (auto simp add: createNormalizedContainer_scale split: option.splits)
qed (simp_all add: createNormalizedContainer_pivot createNormalizedContainer_scale)

theorem normalize_pivot_and_scale_witness:
  "centerToGround \<lparr>targetHeight = Some 1.8, centerToGround = None\<rparr> \<noteq> Some False
   \<and> fst (snd (getSize \<lparr>box_min = (-1, 2, -3), box_max = (3, 11, 1)\<rparr>)) = 9
   \<and> pivot_position (container_child (createNormalizedContainer ''mesh''
        \<lparr>box_min = (-1, 2, -3), box_max = (3, 11, 1)\<rparr> \<lparr>targetHeight = Some 1.8, centerToGround = None\<rparr>))
       = (-1, -2, 1)
   \<and> container_scale (createNormalizedContainer ''mesh''
        \<lparr>box_min = (-1, 2, -3), box_max = (3, 11, 1)\<rparr> \<lparr>targetHeight = Some 1.8, centerToGround = None\<rparr>)
       = (0.2, 0.2, 0.2)
   \<and> centerToGround \<lparr>targetHeight = None, centerToGround = Some False\<rparr> = Some False
   \<and> pivot_position (container_child (createNormalizedContainer ''mesh''
        \<lparr>box_min = (-1, 2, -3), box_max = (3, 11, 1)\<rparr> \<lparr>targetHeight = None, centerToGround = Some False\<rparr>))
       = (0, 0, 0)
   \<and> container_scale (createNormalizedContainer ''mesh''
        \<lparr>box_min = (-1, 2, -3), box_max = (3, 11, 1)\<rparr> \<lparr>targetHeight = None, centerToGround = Some False\<rparr>)
       = (1, 1, 1)"
  using normalize_pivot_and_scale [of "\<lparr>targetHeight = Some 1.8, centerToGround = None\<rparr>" "''mesh''"
          "\<lparr>box_min = (-1, 2, -3), box_max = (3, 11, 1)\<rparr>" None]
        normalize_pivot_and_scale [of "\<lparr>targetHeight = None, centerToGround = Some False\<rparr>" "''mesh''"
          "\<lparr>box_min = (-1, 2, -3), box_max = (3, 11, 1)\<rparr>" None]
  by (simp add: box_example)

theorem normalize_counterexample:
  "pivot_position (container_child (createNormalizedContainer ''mesh''
        \<lparr>box_min = (-1, 2, -3), box_max = (3, 11, 1)\<rparr> \<lparr>targetHeight = Some 1.8, centerToGround = Some False\<rparr>))
     \<noteq> (- fst (getCenter \<lparr>box_min = (-1, 2, -3), box_max = (3, 11, 1)\<rparr>),
         - fst (snd (box_min \<lparr>box_min = (-1, 2, -3), box_max = (3, 11, 1)\<rparr>)),
         - snd (snd (getCenter \<lparr>box_min = (-1, 2, -3), box_max = (3, 11, 1)\<rparr>)))
   \<and> 0 < fst (snd (getSize \<lparr>box_min = (-1, 2, -3), box_max = (3, 11, 1)\<rparr>))
   \<and> container_scale (createNormalizedContainer ''mesh''
        \<lparr>box_min = (-1, 2, -3), box_max = (3, 11, 1)\<rparr> \<lparr>targetHeight = Some 0, centerToGround = None\<rparr>)
     \<noteq> (0 / fst (snd (getSize \<lparr>box_min = (-1, 2, -3), box_max = (3, 11, 1)\<rparr>)),
         0 / fst (snd (getSize \<lparr>box_min = (-1, 2, -3), box_max = (3, 11, 1)\<rparr>)),
         0 / fst (snd (getSize \<lparr>box_min = (-1, 2, -3), box_max = (3, 11, 1)\<rparr>)))"
  by (simp add: createNormalizedContainer_pivot createNormalizedContainer_scale box_example)

section \<open>Properties of root-motion stripping\<close>

lemma suffix_literals:
  "\<not> suffix ''.position'' ''.quaternion''" "\<not> suffix ''.quaternion'' ''.position''"
  "\<not> suffix ''.position'' ''.rotation''" "\<not> suffix ''.rotation'' ''.position''"
  "\<not> suffix ''.position'' ''.scale''" "\<not> suffix ''.scale'' ''.position''"
  by (simp_all add: suffix_to_prefix)

lemma rotation_scale_not_position: "isRotationOrScale t \<Longrightarrow> \<not> isPosition t"
  unfolding isRotationOrScale_def isPosition_def endsWith_def
  using suffix_literals by (meson suffix_same_cases)

lemma strip_clip_fields:
  "clip_name (strip_clip c) = clip_name c"
  "clip_duration (strip_clip c) = clip_duration c"
  "clip_tracks (strip_clip c) = filter (\<lambda>t. \<not> isPosition t) (clip_tracks c)"
  by (simp_all add: strip_clip_def)

lemma strip_eq_map: "getRootMotionStrippedClips (Some clips) = map strip_clip clips"
  by (cases clips) (simp_all add: getRootMotionStrippedClips_def)

lemma strip_nth:
  "i < length clips \<Longrightarrow> getRootMotionStrippedClips (Some clips) ! i = strip_clip (clips ! i)"
  by (simp add: strip_eq_map)

lemma strip_length: "length (getRootMotionStrippedClips (Some clips)) = length clips"
  by (simp add: strip_eq_map)

text \<open>
  Claim C4. The stripped list has one clip for each input clip, in order. Each clip has
  the name and the duration of its original; none of its tracks is a position track; its
  tracks other than position tracks are those of the original, in the same order, and so
  are, in particular, its rotation and scale tracks. Without animations the result is empty.
\<close>

theorem strip_keeps_all_but_position:
  "getRootMotionStrippedClips None = []
   \<and> length (getRootMotionStrippedClips (Some clips)) = length clips
   \<and> (\<forall>i < length clips.
        clip_name (getRootMotionStrippedClips (Some clips) ! i) = clip_name (clips ! i)
        \<and> clip_duration (getRootMotionStrippedClips (Some clips) ! i) = clip_duration (clips ! i)
        \<and> (\<forall>t \<in> set (clip_tracks (getRootMotionStrippedClips (Some clips) ! i)). \<not> isPosition t)
        \<and> filter (\<lambda>t. \<not> isPosition t) (clip_tracks (getRootMotionStrippedClips (Some clips) ! i))
            = filter (\<lambda>t. \<not> isPosition t) (clip_tracks (clips ! i))
        \<and> filter isRotationOrScale (clip_tracks (getRootMotionStrippedClips (Some clips) ! i))
            = filter isRotationOrScale (clip_tracks (clips ! i)))"
proof (intro conjI allI impI)
  show "getRootMotionStrippedClips None = []"
    by (simp add: getRootMotionStrippedClips_def)
  show "length (getRootMotionStrippedClips (Some clips)) = length clips"
    by (rule strip_length)
next
  fix i assume i: "i < length clips"
  let ?c = "getRootMotionStrippedClips (Some clips) ! i"
  have c: "?c = strip_clip (clips ! i)" using i by (rule strip_nth)
  show "clip_name ?c = clip_name (clips ! i)" "clip_duration ?c = clip_duration (clips ! i)"
    by (simp_all add: c strip_clip_fields)
  show "\<forall>t \<in> set (clip_tracks ?c). \<not> isPosition t"
    by (simp add: c strip_clip_fields)
  show "filter (\<lambda>t. \<not> isPosition t) (clip_tracks ?c) = filter (\<lambda>t. \<not> isPosition t) (clip_tracks (clips ! i))"
    by (simp add: c strip_clip_fields)
  have "filter isRotationOrScale (filter (\<lambda>t. \<not> isPosition t) ts) = filter isRotationOrScale ts" for ts
    by (induction ts) (auto dest: rotation_scale_not_position)
  then show "filter isRotationOrScale (clip_tracks ?c) = filter isRotationOrScale (clip_tracks (clips ! i))"
    by (simp add: c strip_clip_fields)
qed


theorem strip_keeps_all_but_position_witness:
  "(0::nat) < length [\<lparr>clip_name = ''Walk'', clip_duration = 1.25,
       clip_tracks = [\<lparr>track_name = ''Hips.position'', track_times = [0, 1], track_values = [0, 0, 0, 0, 0, 2]\<rparr>,
                      \<lparr>track_name = ''Hips.quaternion'', track_times = [0], track_values = [0, 0, 0, 1]\<rparr>,
                      \<lparr>track_name = ''Armature/Foot.position'', track_times = [0], track_values = [1, 0, 0]\<rparr>,
                      \<lparr>track_name = ''Hips.scale'', track_times = [0], track_values = [1, 1, 1]\<rparr>]\<rparr>]
   \<and> getRootMotionStrippedClips (Some [\<lparr>clip_name = ''Walk'', clip_duration = 1.25,
       clip_tracks = [\<lparr>track_name = ''Hips.position'', track_times = [0, 1], track_values = [0, 0, 0, 0, 0, 2]\<rparr>,
                      \<lparr>track_name = ''Hips.quaternion'', track_times = [0], track_values = [0, 0, 0, 1]\<rparr>,
                      \<lparr>track_name = ''Armature/Foot.position'', track_times = [0], track_values = [1, 0, 0]\<rparr>,
                      \<lparr>track_name = ''Hips.scale'', track_times = [0], track_values = [1, 1, 1]\<rparr>]\<rparr>])
     = [\<lparr>clip_name = ''Walk'', clip_duration = 1.25,
       clip_tracks = [\<lparr>track_name = ''Hips.quaternion'', track_times = [0], track_values = [0, 0, 0, 1]\<rparr>,
                      \<lparr>track_name = ''Hips.scale'', track_times = [0], track_values = [1, 1, 1]\<rparr>]\<rparr>]"
proof -
  let ?p1 = "\<lparr>track_name = ''Hips.position'', track_times = [0, 1], track_values = [0, 0, 0, 0, 0, 2]\<rparr>"
  let ?q = "\<lparr>track_name = ''Hips.quaternion'', track_times = [0], track_values = [0, 0, 0, 1]\<rparr>"
  let ?p2 = "\<lparr>track_name = ''Armature/Foot.position'', track_times = [0], track_values = [1, 0, 0]\<rparr>"
  let ?s = "\<lparr>track_name = ''Hips.scale'', track_times = [0], track_values = [1, 1, 1]\<rparr>"
  let ?clips = "[\<lparr>clip_name = ''Walk'', clip_duration = 1.25, clip_tracks = [?p1, ?q, ?p2, ?s]\<rparr>]"
  let ?out = "getRootMotionStrippedClips (Some ?clips)"
  have pos: "isPosition ?p1" "\<not> isPosition ?q" "isPosition ?p2" "\<not> isPosition ?s"
    by (simp_all add: isPosition_def endsWith_def suffix_to_prefix)
  have rs: "\<not> isRotationOrScale ?p1" "isRotationOrScale ?q" "\<not> isRotationOrScale ?p2" "isRotationOrScale ?s"
    by (simp_all add: isRotationOrScale_def endsWith_def suffix_to_prefix)
  from strip_keeps_all_but_position [of ?clips]
  have len: "length ?out = 1"
    and fields: "clip_name (?out ! 0) = ''Walk''" "clip_duration (?out ! 0) = 1.25"
    and nopos: "\<forall>t \<in> set (clip_tracks (?out ! 0)). \<not> isPosition t"
    and kept: "filter isRotationOrScale (clip_tracks (?out ! 0)) = [?q, ?s]"
    and kept': "filter (\<lambda>t. \<not> isPosition t) (clip_tracks (?out ! 0)) = [?q, ?s]"
    by (simp_all add: pos rs)
  from nopos have "filter (\<lambda>t. \<not> isPosition t) (clip_tracks (?out ! 0)) = clip_tracks (?out ! 0)"
    by (simp add: filter_id_conv)
  with kept' have tr: "clip_tracks (?out ! 0) = [?q, ?s]" by simp
  from len obtain c where out: "?out = [c]"
    by (cases ?out) simp_all
  with fields tr have "c = \<lparr>clip_name = ''Walk'', clip_duration = 1.25, clip_tracks = [?q, ?s]\<rparr>"
    by simp
  with out show ?thesis by simp
qed

section \<open>Properties of the instance guard\<close>

lemma globalKey_inj [simp]: "globalKey a = globalKey b \<longleftrightarrow> a = b"
  by (simp add: globalKey_def)

lemma componentId_nonempty [simp]: "componentId n s \<noteq> []"
  by (simp add: componentId_def)

lemma componentId_inj [simp]: "componentId n s = componentId n t \<longleftrightarrow> s = t"
  by (simp add: componentId_def)

lemma acquire_free:
  "\<not> truthy (w (globalKey n)) \<Longrightarrow> acquire w n c = (w(globalKey n \<mapsto> c), True)"
  by (simp add: acquire_def Let_def)

lemma acquire_owned_other:
  "w (globalKey n) = Some c' \<Longrightarrow> c' \<noteq> [] \<Longrightarrow> c \<noteq> c' \<Longrightarrow> acquire w n c = (w, False)"
  by (simp add: acquire_def Let_def truthy_def)

lemma acquire_owned_self:
  "w (globalKey n) = Some c \<Longrightarrow> c \<noteq> [] \<Longrightarrow> acquire w n c = (w, True)"
  by (simp add: acquire_def Let_def truthy_def)

lemma acquire_cases:
  "acquire w n c = (w, False) \<and> truthy (w (globalKey n)) \<and> w (globalKey n) \<noteq> Some c
   \<or> acquire w n c = (w(globalKey n \<mapsto> c), True) \<and> \<not> truthy (w (globalKey n))
   \<or> acquire w n c = (w, True) \<and> w (globalKey n) = Some c"
  by (auto simp add: acquire_def Let_def)

lemma release_owner: "w (globalKey n) = Some c \<Longrightarrow> release w n c = w(globalKey n := None)"
  by (simp add: release_def Let_def)

lemma guard_inv_step:
  assumes "guard_inv gw"
  shows "guard_inv (guard_step gw e)"
proof (cases e)
  case (Render n s)
  let ?c = "componentId n s"
  from acquire_cases [of "window_of gw" n ?c] show ?thesis
  proof (elim disjE conjE)
    assume "acquire (window_of gw) n ?c = (window_of gw, False)"
    with assms Render show ?thesis by (simp add: guard_inv_def Let_def)
  next
    assume a: "acquire (window_of gw) n ?c = ((window_of gw)(globalKey n \<mapsto> ?c), True)"
      and f: "\<not> truthy (window_of gw (globalKey n))"
    have "snd p = ?c" if "p \<in> owners gw" "fst p = n" for p
      using assms that f by (auto simp add: guard_inv_def truthy_def)
    with assms a Render show ?thesis
      by (auto simp add: guard_inv_def Let_def)
  next
    assume "acquire (window_of gw) n ?c = (window_of gw, True)"
      and "window_of gw (globalKey n) = Some ?c"
    with assms Render show ?thesis by (auto simp add: guard_inv_def Let_def)
  qed
next
  case (Unmount n s)
  let ?c = "componentId n s"
  show ?thesis
  proof (cases "(n, ?c) \<in> owners gw")
    case True
    with assms have w: "window_of gw (globalKey n) = Some ?c"
      by (auto simp add: guard_inv_def)
    have "fst p \<noteq> n" if "p \<in> owners gw" "p \<noteq> (n, ?c)" for p
      using assms that w by (cases p) (auto simp add: guard_inv_def)
    with assms True Unmount w show ?thesis
      by (auto simp add: guard_inv_def release_owner Let_def)
  next
    case False
    with assms Unmount show ?thesis by (simp add: Let_def)
  qed
qed

lemma guard_inv_run: "guard_inv (run_events es)"
proof (induction es rule: rev_induct)
  case Nil
  show ?case by (simp add: run_events_def guard_inv_def)
next
  case (snoc e es)
  have "run_events (es @ [e]) = guard_step (run_events es) e"
    by (simp add: run_events_def)
  with snoc guard_inv_step show ?case by simp
qed

lemma render_blocked:
  "acquire w (avatar_name av) c = (w, False) \<Longrightarrow>
   render w av c hg st = (w, st\<lparr>renderCount := renderCount st + 1\<rparr>, False)"
  by (simp add: render_def Let_def)

lemma run_two_renders:
  "run_events [Render ''dr'' ''a'', Render ''dr'' ''b''] =
     \<lparr>window_of = [globalKey ''dr'' \<mapsto> componentId ''dr'' ''a''],
      owners = {(''dr'', componentId ''dr'' ''a'')}\<rparr>"
  by (simp add: run_events_def acquire_free acquire_owned_other truthy_def Let_def)

text \<open>
  Claim C2. For an avatar whose global property is unset, the first instance to render is
  registered and proceeds: it is the owner. While the property names the owner, the
  render of any other instance is rejected: the guard returns false, the registry is
  unchanged, and the render returns \<open>null\<close> having changed nothing of the instance but its
  render count, so its container is not added and no mixer is created (the owner's own
  re-render passes the guard again and leaves the registry as it is). After the owner's
  cleanup the property is unset and the next instance to render is registered. Over every
  sequence of renders and unmounts, at most one instance per avatar is owner.
\<close>

theorem instance_guard_single_owner:
  "(w (globalKey n) = None \<longrightarrow>
      acquire w n (componentId n s1) = (w(globalKey n \<mapsto> componentId n s1), True))
   \<and> (w (globalKey n) = Some (componentId n s1) \<and> s2 \<noteq> s1 \<and> avatar_name av = n \<longrightarrow>
      acquire w n (componentId n s2) = (w, False)
      \<and> render w av (componentId n s2) hasGroup st = (w, st\<lparr>renderCount := renderCount st + 1\<rparr>, False))
   \<and> (w (globalKey n) = Some (componentId n s1) \<longrightarrow>
      acquire w n (componentId n s1) = (w, True)
      \<and> release w n (componentId n s1) (globalKey n) = None
      \<and> acquire (release w n (componentId n s1)) n (componentId n s2)
          = ((release w n (componentId n s1))(globalKey n \<mapsto> componentId n s2), True))
   \<and> (\<forall>c1 c2. (n, c1) \<in> owners (run_events es) \<and> (n, c2) \<in> owners (run_events es) \<longrightarrow> c1 = c2)"
proof (intro conjI allI impI)
  show "acquire w n (componentId n s1) = (w(globalKey n \<mapsto> componentId n s1), True)"
    if "w (globalKey n) = None"
    using that by (simp add: acquire_free truthy_def)
next
  assume a: "w (globalKey n) = Some (componentId n s1) \<and> s2 \<noteq> s1 \<and> avatar_name av = n"
  then show b: "acquire w n (componentId n s2) = (w, False)"
    by (simp add: acquire_owned_other)
  from a b show "render w av (componentId n s2) hasGroup st = (w, st\<lparr>renderCount := renderCount st + 1\<rparr>, False)"
    by (simp add: render_blocked)
next
  assume a: "w (globalKey n) = Some (componentId n s1)"
  then show "acquire w n (componentId n s1) = (w, True)"
    by (simp add: acquire_owned_self)
  from a show r: "release w n (componentId n s1) (globalKey n) = None"
    by (simp add: release_owner)
  then show "acquire (release w n (componentId n s1)) n (componentId n s2)
          = ((release w n (componentId n s1))(globalKey n \<mapsto> componentId n s2), True)"
    by (simp add: acquire_free truthy_def)
next
  fix c1 c2
  assume "(n, c1) \<in> owners (run_events es) \<and> (n, c2) \<in> owners (run_events es)"
  then have "(n, c1) \<in> owners (run_events es)" "(n, c2) \<in> owners (run_events es)"
    by simp_all
  with guard_inv_run [of es]
  have "window_of (run_events es) (globalKey n) = Some c1"
    "window_of (run_events es) (globalKey n) = Some c2"
    unfolding guard_inv_def by force+
  then show "c1 = c2" by simp
qed

theorem instance_guard_single_owner_witness:
  "Map.empty (globalKey ''dr'') = None
   \<and> acquire Map.empty ''dr'' (componentId ''dr'' ''a'')
       = ([globalKey ''dr'' \<mapsto> componentId ''dr'' ''a''], True)
   \<and> [globalKey ''dr'' \<mapsto> componentId ''dr'' ''a''] (globalKey ''dr'') = Some (componentId ''dr'' ''a'')
   \<and> ''b'' \<noteq> ''a''
   \<and> acquire [globalKey ''dr'' \<mapsto> componentId ''dr'' ''a''] ''dr'' (componentId ''dr'' ''b'')
       = ([globalKey ''dr'' \<mapsto> componentId ''dr'' ''a''], False)
   \<and> render [globalKey ''dr'' \<mapsto> componentId ''dr'' ''a'']
        \<lparr>avatar_name = ''dr'', avatar_model = Some ''mesh'', avatar_animations = Some [\<lparr>clip_name = ''Idle'', clip_duration = 2, clip_tracks = []\<rparr>]\<rparr>
        (componentId ''dr'' ''b'') True \<lparr>renderCount = 0, containerAdded = False, mixerCreated = False\<rparr>
       = ([globalKey ''dr'' \<mapsto> componentId ''dr'' ''a''],
          \<lparr>renderCount = 1, containerAdded = False, mixerCreated = False\<rparr>, False)
   \<and> acquire (release [globalKey ''dr'' \<mapsto> componentId ''dr'' ''a''] ''dr'' (componentId ''dr'' ''a''))
        ''dr'' (componentId ''dr'' ''b'')
       = ([globalKey ''dr'' \<mapsto> componentId ''dr'' ''b''], True)
   \<and> (''dr'', componentId ''dr'' ''a'') \<in> owners (run_events [Render ''dr'' ''a'', Render ''dr'' ''b''])
   \<and> (''dr'', componentId ''dr'' ''b'') \<notin> owners (run_events [Render ''dr'' ''a'', Render ''dr'' ''b''])"
proof -
  let ?w = "[globalKey ''dr'' \<mapsto> componentId ''dr'' ''a'']"
  let ?av = "\<lparr>avatar_name = ''dr'', avatar_model = Some ''mesh'', avatar_animations = Some [\<lparr>clip_name = ''Idle'', clip_duration = 2, clip_tracks = []\<rparr>]\<rparr>"
  let ?st = "\<lparr>renderCount = 0, containerAdded = False, mixerCreated = False\<rparr>"
  let ?es = "[Render ''dr'' ''a'', Render ''dr'' ''b'']"
  have first: "acquire Map.empty ''dr'' (componentId ''dr'' ''a'') = (?w, True)"
    using instance_guard_single_owner [of Map.empty "''dr''" "''a''" "''b''" ?av True ?st ?es]
    by simp
  have rest: "acquire ?w ''dr'' (componentId ''dr'' ''b'') = (?w, False)"
    "render ?w ?av (componentId ''dr'' ''b'') True ?st = (?w, ?st\<lparr>renderCount := renderCount ?st + 1\<rparr>, False)"
    "acquire ?w ''dr'' (componentId ''dr'' ''a'') = (?w, True)"
    "release ?w ''dr'' (componentId ''dr'' ''a'') (globalKey ''dr'') = None"
    "acquire (release ?w ''dr'' (componentId ''dr'' ''a'')) ''dr'' (componentId ''dr'' ''b'')
       = ((release ?w ''dr'' (componentId ''dr'' ''a''))(globalKey ''dr'' \<mapsto> componentId ''dr'' ''b''), True)"
    using instance_guard_single_owner [of ?w "''dr''" "''a''" "''b''" ?av True ?st ?es]
    by simp_all
  have one: "\<forall>c1 c2. (''dr'', c1) \<in> owners (run_events ?es) \<and> (''dr'', c2) \<in> owners (run_events ?es)
       \<longrightarrow> c1 = c2"
    using instance_guard_single_owner [of ?w "''dr''" "''a''" "''b''" ?av True ?st ?es]
    by blast
  have a: "(''dr'', componentId ''dr'' ''a'') \<in> owners (run_events ?es)"
    by (simp add: run_two_renders)
  have "componentId ''dr'' ''b'' \<noteq> componentId ''dr'' ''a''"
    by simp
  with one a have b: "(''dr'', componentId ''dr'' ''b'') \<notin> owners (run_events ?es)"
    by blast
  have rel: "release ?w ''dr'' (componentId ''dr'' ''a'') = Map.empty"
    by (simp add: release_owner)
  show ?thesis
    using first rest(1,2,5) a b by (simp add: rel)
qed

section \<open>Properties of the animation selector\<close>

lemma findBy_in_clips:
  "findBy clips ps = Some n \<Longrightarrow> \<exists>c \<in> set clips. clip_name c = n"
proof (induction ps)
  case Nil
  then show ?case by simp
next
  case (Cons p ps)
  show ?case
  proof (cases "find (\<lambda>c. regexp_test p (clip_name c)) clips")
    case None
    with Cons show ?thesis by simp
  next
    case (Some hit)
    then have "hit \<in> set clips"
      by (auto simp add: find_Some_iff)
    with Some Cons.prems show ?thesis by auto
  qed
qed

lemma idleChoice_in_clips:
  "idleChoice clips = Some n \<Longrightarrow> \<exists>c \<in> set clips. clip_name c = n"
  by (auto simp add: idleChoice_def Let_def simp del: findBy.simps dest: findBy_in_clips
        split: if_splits list.splits)

lemma resolve_want_in_clips:
  assumes "resolve_want clips m r = Some n"
  shows "\<exists>c \<in> set clips. clip_name c = n"
proof (cases m)
  case False
  with assms show ?thesis by (simp add: resolve_want_def idleChoice_in_clips)
next
  case True
  let ?mv = "findBy clips [if r then Words [''run''] else EmptyOnly,
                Words [''walk''], Words [''move''], Words [''locomotion''], Words [''forward'']]"
  show ?thesis
  proof (cases "truthy ?mv")
    case t: True
    with assms True have "?mv = Some n" by (simp add: resolve_want_def Let_def del: findBy.simps)
    then show ?thesis by (rule findBy_in_clips)
  next
    case f: False
    show ?thesis
    proof (cases "find (\<lambda>c. \<not> regexp_test (Words [''idle'', ''stand'', ''tpose'']) (clip_name c)) clips")
      case None
      with assms True f show ?thesis
        by (simp add: resolve_want_def Let_def idleChoice_in_clips del: findBy.simps)
    next
      case (Some nonIdle)
      then have "nonIdle \<in> set clips" by (auto simp add: find_Some_iff)
      moreover from assms True f Some have "clip_name nonIdle = n"
        by (simp add: resolve_want_def Let_def del: findBy.simps)
      ultimately show ?thesis by blast
    qed
  qed
qed

lemma find_by_name:
  "\<exists>c \<in> set clips. clip_name c = n \<Longrightarrow>
   \<exists>c. find (\<lambda>c. clip_name c = n) clips = Some c \<and> clip_name c = n"
  by (induction clips) auto

lemma playStrippedByName_known:
  assumes "\<exists>c \<in> set clips. clip_name c = n"
  shows "playStrippedByName clips n =
     (\<lambda>cur. Some n,
      [OnAction n Reset, OnAction n (FadeIn 0.2), OnAction n SetLoopRepeatInfinity, OnAction n Play])"
proof -
  from find_by_name [OF assms] obtain c where "find (\<lambda>c. clip_name c = n) clips = Some c" "clip_name c = n"
    by blast
  then show ?thesis by (simp add: playStrippedByName_def)
qed

lemma playStrippedByName_no_fade_out:
  "OnAction n (FadeOut t) \<notin> set (snd (playStrippedByName clips name))"
  by (simp add: playStrippedByName_def split: option.splits list.splits)

lemma frame_unchanged:
  assumes "strippedClipsRef refs = Some clips" "resolve_want clips m r = currentClipNameRef refs"
  shows "frameCallback_animation refs m r d = (refs, if hasMixer refs then [Update d] else [])"
  using assms by (simp add: frameCallback_animation_def Let_def split: option.splits)

lemma frame_falsy:
  assumes "strippedClipsRef refs = Some clips" "\<not> truthy (resolve_want clips m r)"
  shows "frameCallback_animation refs m r d = (refs, if hasMixer refs then [Update d] else [])"
  using assms by (simp add: frameCallback_animation_def Let_def split: option.splits)

lemma frame_switch:
  assumes "hasMixer refs" "strippedClipsRef refs = Some clips" "playStrippedRef refs = Some clips"
    and "resolve_want clips m r = Some n" "n \<noteq> []" "currentClipNameRef refs \<noteq> Some n"
  shows "frameCallback_animation refs m r d =
     (refs\<lparr>currentClipNameRef := Some n\<rparr>,
      [Update d, OnAction n Reset, OnAction n (FadeIn 0.2), OnAction n SetLoopRepeatInfinity, OnAction n Play])"
proof -
  from assms(4) have "\<exists>c \<in> set clips. clip_name c = n" by (rule resolve_want_in_clips)
  then have p: "playStrippedByName clips n =
     (\<lambda>cur. Some n,
      [OnAction n Reset, OnAction n (FadeIn 0.2), OnAction n SetLoopRepeatInfinity, OnAction n Play])"
    by (rule playStrippedByName_known)
  from assms have "truthy (resolve_want clips m r)" "resolve_want clips m r \<noteq> currentClipNameRef refs"
    by (auto simp add: truthy_def)
  with assms p show ?thesis
    by (simp add: frameCallback_animation_def Let_def)
qed

lemma frame_calls_need_change:
  assumes "action_calls (snd (frameCallback_animation refs m r d)) \<noteq> []"
  shows "\<exists>clips. strippedClipsRef refs = Some clips \<and> resolve_want clips m r \<noteq> currentClipNameRef refs"
proof (cases "strippedClipsRef refs")
  case None
  with assms show ?thesis
    by (simp add: frameCallback_animation_def action_calls_def split: if_splits)
next
  case (Some clips)
  show ?thesis
  proof (cases "resolve_want clips m r = currentClipNameRef refs")
    case True
    with Some assms show ?thesis
      by (simp add: frame_unchanged action_calls_def)
  next
    case False
    with Some show ?thesis by simp
  qed
qed

lemma frame_second_tick:
  assumes s: "strippedClipsRef refs = Some clips" and p: "playStrippedRef refs = Some clips"
    and same: "resolve_want clips m' r' = resolve_want clips m r"
  shows "frameCallback_animation (fst (frameCallback_animation refs m r d)) m' r' d' =
     (fst (frameCallback_animation refs m r d), if hasMixer refs then [Update d'] else [])"
proof -
  let ?w = "resolve_want clips m r"
  let ?refs1 = "fst (frameCallback_animation refs m r d)"
  consider (nomixer) "\<not> hasMixer refs"
    | (idle) "hasMixer refs" "\<not> truthy ?w \<or> ?w = currentClipNameRef refs"
    | (switch) "hasMixer refs" "truthy ?w" "?w \<noteq> currentClipNameRef refs"
    by blast
  then show ?thesis
  proof cases
    case nomixer
    then show ?thesis by (simp add: frameCallback_animation_def)
  next
    case idle
    with s have 1: "?refs1 = refs"
      by (auto simp add: frame_unchanged frame_falsy)
    from idle s same show ?thesis
      unfolding 1 by (auto simp add: frame_unchanged frame_falsy)
  next
    case switch
    then obtain n where n: "?w = Some n" "n \<noteq> []"
      by (auto simp add: truthy_def split: option.splits)
    with switch have "currentClipNameRef refs \<noteq> Some n" by auto
    from frame_switch [OF switch(1) s p n this]
    have 1: "?refs1 = refs\<lparr>currentClipNameRef := Some n\<rparr>" by simp
    have "frameCallback_animation (refs\<lparr>currentClipNameRef := Some n\<rparr>) m' r' d' =
       (refs\<lparr>currentClipNameRef := Some n\<rparr>,
        if hasMixer (refs\<lparr>currentClipNameRef := Some n\<rparr>) then [Update d'] else [])"
      by (rule frame_unchanged [where clips = clips]) (simp_all add: s same n)
    then show ?thesis unfolding 1 by simp
  qed
qed

lemma want_idle_walk:
  "resolve_want [\<lparr>clip_name = ''Idle'', clip_duration = 2, clip_tracks = []\<rparr>,
                 \<lparr>clip_name = ''Walk'', clip_duration = 1, clip_tracks = []\<rparr>] True False = Some ''Walk''"
  "resolve_want [\<lparr>clip_name = ''Idle'', clip_duration = 2, clip_tracks = []\<rparr>,
                 \<lparr>clip_name = ''Walk'', clip_duration = 1, clip_tracks = []\<rparr>] False False = Some ''Idle''"
  by code_simp code_simp

lemma frame_calls_shape:
  "snd (frameCallback_animation refs m r d) = []
   \<or> snd (frameCallback_animation refs m r d) = [Update d]
   \<or> (\<exists>captured w. snd (frameCallback_animation refs m r d) = Update d # snd (playStrippedByName captured w))"
proof (cases "hasMixer refs")
  case False
  then show ?thesis by (simp add: frameCallback_animation_def)
next
  case True
  show ?thesis
  proof (cases "strippedClipsRef refs")
    case None
    with True show ?thesis by (simp add: frameCallback_animation_def)
  next
    case (Some clips)
    note s = this
    show ?thesis
    proof (cases "playStrippedRef refs")
      case None
      with True s show ?thesis by (simp add: frameCallback_animation_def)
    next
      case (Some captured)
      with True s have "snd (frameCallback_animation refs m r d) = [Update d]
        \<or> snd (frameCallback_animation refs m r d)
            = Update d # snd (playStrippedByName captured (the (resolve_want clips m r)))"
        by (simp add: frameCallback_animation_def Let_def split_beta)
      then show ?thesis by blast
    qed
  qed
qed

lemma frame_never_fades_out:
  "OnAction n (FadeOut t) \<notin> set (snd (frameCallback_animation refs m r d))"
  using frame_calls_shape [of refs m r d] playStrippedByName_no_fade_out [of n t]
  by (elim disjE exE) simp_all

lemma preferred_idle_walk:
  "preferredOnLoad [\<lparr>clip_name = ''Idle'', clip_duration = 2, clip_tracks = []\<rparr>,
                    \<lparr>clip_name = ''Walk'', clip_duration = 1, clip_tracks = []\<rparr>]
     = Some \<lparr>clip_name = ''Idle'', clip_duration = 2, clip_tracks = []\<rparr>"
  by code_simp

lemma setup_idle_walk:
  "setupAnimations (Some [\<lparr>clip_name = ''Idle'', clip_duration = 2, clip_tracks = []\<rparr>,
                          \<lparr>clip_name = ''Walk'', clip_duration = 1, clip_tracks = []\<rparr>]) initial_refs
     = \<lparr>hasMixer = True,
        strippedClipsRef = Some [\<lparr>clip_name = ''Idle'', clip_duration = 2, clip_tracks = []\<rparr>,
                                 \<lparr>clip_name = ''Walk'', clip_duration = 1, clip_tracks = []\<rparr>],
        playStrippedRef = Some [\<lparr>clip_name = ''Idle'', clip_duration = 2, clip_tracks = []\<rparr>,
                                \<lparr>clip_name = ''Walk'', clip_duration = 1, clip_tracks = []\<rparr>],
        currentClipNameRef = None\<rparr>"
  by (simp add: setupAnimations_def initial_refs_def strip_eq_map strip_clip_def Let_def)

text \<open>
  Claim C6, evaluated on the code. An avatar with clips \<open>Idle\<close> and \<open>Walk\<close> is set up while it
  is moving. The first run of the frame callback resolves \<open>Walk\<close> and starts it. The timer
  scheduled on load then plays \<open>Idle\<close> and writes its name to \<open>currentClipNameRef\<close>. The next
  run of the frame callback resolves \<open>Walk\<close>, as the run before it did, and resets and fades
  in the \<open>Walk\<close> action again.
\<close>

theorem selector_reissues_after_load_timer:
  "setupAnimations (Some [\<lparr>clip_name = ''Idle'', clip_duration = 2, clip_tracks = []\<rparr>,
                          \<lparr>clip_name = ''Walk'', clip_duration = 1, clip_tracks = []\<rparr>]) initial_refs
     = \<lparr>hasMixer = True,
        strippedClipsRef = Some [\<lparr>clip_name = ''Idle'', clip_duration = 2, clip_tracks = []\<rparr>,
                                 \<lparr>clip_name = ''Walk'', clip_duration = 1, clip_tracks = []\<rparr>],
        playStrippedRef = Some [\<lparr>clip_name = ''Idle'', clip_duration = 2, clip_tracks = []\<rparr>,
                                \<lparr>clip_name = ''Walk'', clip_duration = 1, clip_tracks = []\<rparr>],
        currentClipNameRef = None\<rparr>
   \<and> resolve_want [\<lparr>clip_name = ''Idle'', clip_duration = 2, clip_tracks = []\<rparr>,
                    \<lparr>clip_name = ''Walk'', clip_duration = 1, clip_tracks = []\<rparr>] True False = Some ''Walk''
   \<and> frameCallback_animation
        \<lparr>hasMixer = True,
         strippedClipsRef = Some [\<lparr>clip_name = ''Idle'', clip_duration = 2, clip_tracks = []\<rparr>,
                                  \<lparr>clip_name = ''Walk'', clip_duration = 1, clip_tracks = []\<rparr>],
         playStrippedRef = Some [\<lparr>clip_name = ''Idle'', clip_duration = 2, clip_tracks = []\<rparr>,
                                 \<lparr>clip_name = ''Walk'', clip_duration = 1, clip_tracks = []\<rparr>],
         currentClipNameRef = None\<rparr> True False (1 / 60)
     = (\<lparr>hasMixer = True,
         strippedClipsRef = Some [\<lparr>clip_name = ''Idle'', clip_duration = 2, clip_tracks = []\<rparr>,
                                  \<lparr>clip_name = ''Walk'', clip_duration = 1, clip_tracks = []\<rparr>],
         playStrippedRef = Some [\<lparr>clip_name = ''Idle'', clip_duration = 2, clip_tracks = []\<rparr>,
                                 \<lparr>clip_name = ''Walk'', clip_duration = 1, clip_tracks = []\<rparr>],
         currentClipNameRef = Some ''Walk''\<rparr>,
        [Update (1 / 60), OnAction ''Walk'' Reset, OnAction ''Walk'' (FadeIn 0.2),
         OnAction ''Walk'' SetLoopRepeatInfinity, OnAction ''Walk'' Play])
   \<and> onLoadTimer [\<lparr>clip_name = ''Idle'', clip_duration = 2, clip_tracks = []\<rparr>,
                   \<lparr>clip_name = ''Walk'', clip_duration = 1, clip_tracks = []\<rparr>]
        \<lparr>hasMixer = True,
         strippedClipsRef = Some [\<lparr>clip_name = ''Idle'', clip_duration = 2, clip_tracks = []\<rparr>,
                                  \<lparr>clip_name = ''Walk'', clip_duration = 1, clip_tracks = []\<rparr>],
         playStrippedRef = Some [\<lparr>clip_name = ''Idle'', clip_duration = 2, clip_tracks = []\<rparr>,
                                 \<lparr>clip_name = ''Walk'', clip_duration = 1, clip_tracks = []\<rparr>],
         currentClipNameRef = Some ''Walk''\<rparr>
     = (\<lparr>hasMixer = True,
         strippedClipsRef = Some [\<lparr>clip_name = ''Idle'', clip_duration = 2, clip_tracks = []\<rparr>,
                                  \<lparr>clip_name = ''Walk'', clip_duration = 1, clip_tracks = []\<rparr>],
         playStrippedRef = Some [\<lparr>clip_name = ''Idle'', clip_duration = 2, clip_tracks = []\<rparr>,
                                 \<lparr>clip_name = ''Walk'', clip_duration = 1, clip_tracks = []\<rparr>],
         currentClipNameRef = Some ''Idle''\<rparr>,
        [OnAction ''Idle'' Reset, OnAction ''Idle'' (FadeIn 0.2),
         OnAction ''Idle'' SetLoopRepeatInfinity, OnAction ''Idle'' Play])
   \<and> frameCallback_animation
        \<lparr>hasMixer = True,
         strippedClipsRef = Some [\<lparr>clip_name = ''Idle'', clip_duration = 2, clip_tracks = []\<rparr>,
                                  \<lparr>clip_name = ''Walk'', clip_duration = 1, clip_tracks = []\<rparr>],
         playStrippedRef = Some [\<lparr>clip_name = ''Idle'', clip_duration = 2, clip_tracks = []\<rparr>,
                                 \<lparr>clip_name = ''Walk'', clip_duration = 1, clip_tracks = []\<rparr>],
         currentClipNameRef = Some ''Idle''\<rparr> True False (1 / 60)
     = (\<lparr>hasMixer = True,
         strippedClipsRef = Some [\<lparr>clip_name = ''Idle'', clip_duration = 2, clip_tracks = []\<rparr>,
                                  \<lparr>clip_name = ''Walk'', clip_duration = 1, clip_tracks = []\<rparr>],
         playStrippedRef = Some [\<lparr>clip_name = ''Idle'', clip_duration = 2, clip_tracks = []\<rparr>,
                                 \<lparr>clip_name = ''Walk'', clip_duration = 1, clip_tracks = []\<rparr>],
         currentClipNameRef = Some ''Walk''\<rparr>,
        [Update (1 / 60), OnAction ''Walk'' Reset, OnAction ''Walk'' (FadeIn 0.2),
         OnAction ''Walk'' SetLoopRepeatInfinity, OnAction ''Walk'' Play])"
proof (intro conjI)
  let ?cs = "[\<lparr>clip_name = ''Idle'', clip_duration = 2, clip_tracks = []\<rparr>,
              \<lparr>clip_name = ''Walk'', clip_duration = 1, clip_tracks = []\<rparr>]"
  let ?refs = "\<lambda>cur. \<lparr>hasMixer = True, strippedClipsRef = Some ?cs, playStrippedRef = Some ?cs,
                currentClipNameRef = cur\<rparr>"
  show "setupAnimations (Some ?cs) initial_refs = ?refs None"
    by (rule setup_idle_walk)
  show "resolve_want ?cs True False = Some ''Walk''"
    by (rule want_idle_walk)
  have tick: "frameCallback_animation (?refs cur) True False (1 / 60) =
     ((?refs cur)\<lparr>currentClipNameRef := Some ''Walk''\<rparr>,
      [Update (1 / 60), OnAction ''Walk'' Reset, OnAction ''Walk'' (FadeIn 0.2),
       OnAction ''Walk'' SetLoopRepeatInfinity, OnAction ''Walk'' Play])"
    if "cur \<noteq> Some ''Walk''" for cur
    by (rule frame_switch [where clips = ?cs]) (simp_all add: want_idle_walk that)
  from tick [of None] show "frameCallback_animation (?refs None) True False (1 / 60) =
     (?refs (Some ''Walk''),
      [Update (1 / 60), OnAction ''Walk'' Reset, OnAction ''Walk'' (FadeIn 0.2),
       OnAction ''Walk'' SetLoopRepeatInfinity, OnAction ''Walk'' Play])"
    by simp
  from tick [of "Some ''Idle''"] show "frameCallback_animation (?refs (Some ''Idle'')) True False (1 / 60) =
     (?refs (Some ''Walk''),
      [Update (1 / 60), OnAction ''Walk'' Reset, OnAction ''Walk'' (FadeIn 0.2),
       OnAction ''Walk'' SetLoopRepeatInfinity, OnAction ''Walk'' Play])"
    by simp
  have "playStrippedByName ?cs ''Idle'' =
     (\<lambda>cur. Some ''Idle'',
      [OnAction ''Idle'' Reset, OnAction ''Idle'' (FadeIn 0.2),
       OnAction ''Idle'' SetLoopRepeatInfinity, OnAction ''Idle'' Play])"
    by (rule playStrippedByName_known) simp
  then show "onLoadTimer ?cs (?refs (Some ''Walk'')) =
     (?refs (Some ''Idle''),
      [OnAction ''Idle'' Reset, OnAction ''Idle'' (FadeIn 0.2),
       OnAction ''Idle'' SetLoopRepeatInfinity, OnAction ''Idle'' Play])"
    by (simp add: onLoadTimer_def preferred_idle_walk)
qed

text \<open>
  Claim C5, evaluated on the code. With clips \<open>Idle\<close> and \<open>Walk\<close>, \<open>Idle\<close> playing and the avatar
  starting to move, the frame callback resets the \<open>Walk\<close> action, fades it in over \<open>0.2\<close>,
  sets it to repeat for ever and plays it, and makes no call on the \<open>Idle\<close> action. No run of
  the frame callback ever calls \<open>fadeOut\<close>. \<open>playAnimation\<close>, on the same clips, fades the
  current action out over \<open>0.2\<close> before it starts the new one.
\<close>

theorem selector_switch_omits_fade_out:
  "frameCallback_animation
      \<lparr>hasMixer = True,
       strippedClipsRef = Some [\<lparr>clip_name = ''Idle'', clip_duration = 2, clip_tracks = []\<rparr>,
                                \<lparr>clip_name = ''Walk'', clip_duration = 1, clip_tracks = []\<rparr>],
       playStrippedRef = Some [\<lparr>clip_name = ''Idle'', clip_duration = 2, clip_tracks = []\<rparr>,
                               \<lparr>clip_name = ''Walk'', clip_duration = 1, clip_tracks = []\<rparr>],
       currentClipNameRef = Some ''Idle''\<rparr> True False (1 / 60)
   = (\<lparr>hasMixer = True,
       strippedClipsRef = Some [\<lparr>clip_name = ''Idle'', clip_duration = 2, clip_tracks = []\<rparr>,
                                \<lparr>clip_name = ''Walk'', clip_duration = 1, clip_tracks = []\<rparr>],
       playStrippedRef = Some [\<lparr>clip_name = ''Idle'', clip_duration = 2, clip_tracks = []\<rparr>,
                               \<lparr>clip_name = ''Walk'', clip_duration = 1, clip_tracks = []\<rparr>],
       currentClipNameRef = Some ''Walk''\<rparr>,
      [Update (1 / 60), OnAction ''Walk'' Reset, OnAction ''Walk'' (FadeIn 0.2),
       OnAction ''Walk'' SetLoopRepeatInfinity, OnAction ''Walk'' Play])
   \<and> OnAction n (FadeOut t) \<notin> set (snd (frameCallback_animation refs m r d))
   \<and> playAnimation True
        (Some [\<lparr>clip_name = ''Idle'', clip_duration = 2, clip_tracks = []\<rparr>,
               \<lparr>clip_name = ''Walk'', clip_duration = 1, clip_tracks = []\<rparr>])
        (Some ''Idle'') ''Walk''
     = (True, Some ''Walk'',
        [OnAction ''Idle'' (FadeOut 0.2), OnAction ''Walk'' Reset, OnAction ''Walk'' (FadeIn 0.2),
         OnAction ''Walk'' SetLoopRepeatInfinity, OnAction ''Walk'' Play])"
proof (intro conjI)
  let ?cs = "[\<lparr>clip_name = ''Idle'', clip_duration = 2, clip_tracks = []\<rparr>,
              \<lparr>clip_name = ''Walk'', clip_duration = 1, clip_tracks = []\<rparr>]"
  let ?refs = "\<lparr>hasMixer = True, strippedClipsRef = Some ?cs, playStrippedRef = Some ?cs,
                currentClipNameRef = Some ''Idle''\<rparr>"
  have "frameCallback_animation ?refs True False (1 / 60) =
     (?refs\<lparr>currentClipNameRef := Some ''Walk''\<rparr>,
      [Update (1 / 60), OnAction ''Walk'' Reset, OnAction ''Walk'' (FadeIn 0.2),
       OnAction ''Walk'' SetLoopRepeatInfinity, OnAction ''Walk'' Play])"
    by (rule frame_switch [where clips = ?cs]) (simp_all add: want_idle_walk)
  then show "frameCallback_animation ?refs True False (1 / 60) =
     (\<lparr>hasMixer = True, strippedClipsRef = Some ?cs, playStrippedRef = Some ?cs,
       currentClipNameRef = Some ''Walk''\<rparr>,
      [Update (1 / 60), OnAction ''Walk'' Reset, OnAction ''Walk'' (FadeIn 0.2),
       OnAction ''Walk'' SetLoopRepeatInfinity, OnAction ''Walk'' Play])"
    by simp
  show "OnAction n (FadeOut t) \<notin> set (snd (frameCallback_animation refs m r d))"
    by (rule frame_never_fades_out)
  show "playAnimation True (Some ?cs) (Some ''Idle'') ''Walk''
     = (True, Some ''Walk'',
        [OnAction ''Idle'' (FadeOut 0.2), OnAction ''Walk'' Reset, OnAction ''Walk'' (FadeIn 0.2),
         OnAction ''Walk'' SetLoopRepeatInfinity, OnAction ''Walk'' Play])"
    by (simp add: playAnimation_def)
qed

theorem selector_switch_omits_fade_out_witness:
  "OnAction ''Idle'' (FadeOut 0.2) \<notin> set (snd (frameCallback_animation
      \<lparr>hasMixer = True,
       strippedClipsRef = Some [\<lparr>clip_name = ''Idle'', clip_duration = 2, clip_tracks = []\<rparr>,
                                \<lparr>clip_name = ''Walk'', clip_duration = 1, clip_tracks = []\<rparr>],
       playStrippedRef = Some [\<lparr>clip_name = ''Idle'', clip_duration = 2, clip_tracks = []\<rparr>,
                               \<lparr>clip_name = ''Walk'', clip_duration = 1, clip_tracks = []\<rparr>],
       currentClipNameRef = Some ''Idle''\<rparr> True False (1 / 60)))
   \<and> OnAction ''Idle'' (FadeOut 0.2) \<in> set (snd (snd (playAnimation True
        (Some [\<lparr>clip_name = ''Idle'', clip_duration = 2, clip_tracks = []\<rparr>,
               \<lparr>clip_name = ''Walk'', clip_duration = 1, clip_tracks = []\<rparr>])
        (Some ''Idle'') ''Walk'')))"
  using selector_switch_omits_fade_out [of "''Idle''" "0.2"
      "\<lparr>hasMixer = True,
       strippedClipsRef = Some [\<lparr>clip_name = ''Idle'', clip_duration = 2, clip_tracks = []\<rparr>,
                                \<lparr>clip_name = ''Walk'', clip_duration = 1, clip_tracks = []\<rparr>],
       playStrippedRef = Some [\<lparr>clip_name = ''Idle'', clip_duration = 2, clip_tracks = []\<rparr>,
                               \<lparr>clip_name = ''Walk'', clip_duration = 1, clip_tracks = []\<rparr>],
       currentClipNameRef = Some ''Idle''\<rparr>" True False "1 / 60"]
  by simp

end
